theory Spec2Isabelle
  imports Main "HOL-Library.Word" "HOL-Library.Char_ord" "HOL-Library.List_Lexorder"
begin

unbundle bit_operations_syntax

section \<open>Data model of the external helper bridge (kis\_external.cc)\<close>

text \<open>
  The class \<^verbatim>\<open>kis_external_interface\<close> is embedded as a record of its member variables.
  Every call the class makes to a collaborator (message bus, event bus, timer service, IPC
  registry, HTTP connection, asio descriptors, the kernel) is appended to the field
  \<open>trace\<close> as an \<open>event\<close>, in program order. What a collaborator or a virtual hook
  answers is read from an \<open>env\<close> record passed to every operation.
  The endpoint mutex is not modelled: every operation is run to completion by one thread.
\<close>

type_synonym u32 = "32 word"

text \<open>The three asio objects of the class, and the delegated write callback.\<close>

datatype handle = Ipc_in | Ipc_out | Tcpsocket | Write_cb

datatype signal = SIGTERM | SIGKILL

text \<open>
  Message-bus flags. \<open>Msgflag_raw\<close> carries the integer type of a proxied MESSAGE,
  which is passed through to the bus as it came.
\<close>

datatype msgflag = MSGFLAG_ERROR | MSGFLAG_INFO | Msgflag_raw int

text \<open>The outer protobuf envelope \<^verbatim>\<open>KismetExternal::Command\<close>.\<close>

record Command =
  c_command :: string
  c_seqno :: u32
  c_content :: string

text \<open>The wire frame \<^verbatim>\<open>kismet_external_frame_t\<close> (fields already in host order).\<close>

record frame =
  signature :: u32
  data_sz :: u32
  data_checksum :: u32
  data :: string

datatype event =
    Ev_msg string msgflag
  | Ev_remove_listener nat
  | Ev_register_listener string nat
  | Ev_publish string string
  | Ev_stream_cancel nat
  | Ev_stream_put_data nat string
  | Ev_stream_complete nat
  | Ev_append_header nat string string
  | Ev_set_status nat u32
  | Ev_gate_unlock nat "int option"
  | Ev_remove_timer int
  | Ev_cancel handle
  | Ev_close handle
  | Ev_remove_ipc int
  | Ev_register_ipc int
  | Ev_kill int signal
  | Ev_async_read handle
  | Ev_write handle frame
  | Ev_close_fd int
  | Ev_register_route string string
  | Ev_create_auth
  | Ev_handle_error string

text \<open>
  \<^verbatim>\<open>kis_external_http_session\<close>: the two shared pointers are identified by the
  object they point to. A release of the gate is logged with the value passed to it:
  \<open>None\<close> for \<^verbatim>\<open>unlock()\<close>, \<open>Some v\<close> for \<^verbatim>\<open>unlock(v)\<close>.
\<close>

record kis_external_http_session =
  connection :: nat
  locker :: nat

text \<open>
  The endpoint. An asio object is \<open>Some fd\<close> while \<^verbatim>\<open>is_open()\<close> holds. The two
  \<^verbatim>\<open>std::map\<close>s are association lists in iteration (key) order. \<open>ipc_pid\<close> is
  \<^verbatim>\<open>ipc.pid\<close>; the two callbacks are \<open>Some\<close> of an identifier while installed.
\<close>

record kis_external_interface =
  stopped :: bool
  cancelled :: bool
  seqno :: u32
  last_pong :: nat
  ping_timer_id :: int
  ipc_in :: "int option"
  ipc_out :: "int option"
  tcpsocket :: "int option"
  in_buf :: string
  ipc_pid :: int
  external_binary :: string
  external_binary_args :: "string list"
  eventbus_callback_map :: "(string \<times> nat) list"
  http_proxy_session_map :: "(u32 \<times> kis_external_http_session) list"
  http_session_id :: u32
  write_cb :: "nat option"
  closure_cb :: "nat option"
  trace :: "event list"

text \<open>\<^verbatim>\<open>struct stat\<close>, the three fields the code reads.\<close>

record stat_t =
  st_mode :: u32
  st_uid :: u32
  st_gid :: u32

text \<open>The protobuf sub-messages whose fields the handlers read.\<close>

record MsgbusMessage =
  msgtext :: string
  msgtype :: int

record HttpRegisterUri =
  uri :: string
  http_method :: string

text \<open>
  \<^verbatim>\<open>HttpResponse\<close>: an optional field is \<open>None\<close> when \<^verbatim>\<open>has_x()\<close> is false;
  the repeated \<^verbatim>\<open>header_content\<close> is a list of (header, content) pairs.
\<close>

record HttpResponse =
  req_id :: u32
  header_content :: "(string \<times> string) list"
  resultcode :: "u32 option"
  content :: "string option"
  close_response :: "bool option"

record EventbusPublishEvent =
  event_type :: string
  event_content_json :: string

text \<open>
  Everything the translation unit takes from outside: protobuf parsing and serialisation,
  constants and helpers of absent headers, the configuration store, the kernel, the HTTP
  server, and the virtual hook \<^verbatim>\<open>handle_error\<close>. An answer that can depend on what was
  called before takes the trace so far.
\<close>

record env =
  handle_error :: "string \<Rightarrow> kis_external_interface \<Rightarrow> kis_external_interface"
  KIS_EXTERNAL_PROTO_SIG :: u32
  adler32_checksum :: "string \<Rightarrow> u32"
  serialize_Command :: "Command \<Rightarrow> string"
  serialize_Pong :: "u32 \<Rightarrow> string"
  serialize_HttpAuthToken :: "string \<Rightarrow> string"
  parse_MsgbusMessage :: "string \<Rightarrow> MsgbusMessage option"
  parse_Pong :: "string \<Rightarrow> u32 option"
  parse_ExternalShutdown :: "string \<Rightarrow> string option"
  parse_EventbusRegisterListener :: "string \<Rightarrow> string list option"
  parse_EventbusPublishEvent :: "string \<Rightarrow> EventbusPublishEvent option"
  parse_HttpRegisterUri :: "string \<Rightarrow> HttpRegisterUri option"
  parse_HttpResponse :: "string \<Rightarrow> HttpResponse option"
  parse_HttpAuthTokenRequest :: "string \<Rightarrow> unit option"
  register_listener :: "event list \<Rightarrow> string \<Rightarrow> nat"
  append_header_throws :: "event list \<Rightarrow> nat \<Rightarrow> string \<Rightarrow> string \<Rightarrow> string option"
  set_status_throws :: "event list \<Rightarrow> nat \<Rightarrow> u32 \<Rightarrow> string option"
  create_auth :: "event list \<Rightarrow> string"
  time_now :: nat
  fetch_opt_vec :: "string \<Rightarrow> string list"
  expand_log_path :: "string \<Rightarrow> string"
  stat :: "string \<Rightarrow> stat_t option"
  getuid :: u32
  getgid :: u32
  getgroups :: "u32 list"
  pipe_in :: "(int \<times> int) option"
  pipe_out :: "(int \<times> int) option"
  fork :: int
  kis_strerror_r :: string

section \<open>Lifecycle\<close>

definition msg :: "string \<Rightarrow> msgflag \<Rightarrow> kis_external_interface \<Rightarrow> kis_external_interface" where
  "msg text flag s = s\<lparr>trace := trace s @ [Ev_msg text flag]\<rparr>"

definition emit :: "event list \<Rightarrow> kis_external_interface \<Rightarrow> kis_external_interface" where
  "emit evs s = s\<lparr>trace := trace s @ evs\<rparr>"

text \<open>
  The constructor (lines 38-53). \<open>pid0\<close> is the pid of a default-constructed
  \<^verbatim>\<open>kis_ipc_record\<close>, whose declaration is in an absent header.
\<close>

definition kis_external_interface_new :: "int \<Rightarrow> kis_external_interface" where
  "kis_external_interface_new pid0 =
     \<lparr>stopped = True, cancelled = False, seqno = 0, last_pong = 0, ping_timer_id = - 1,
      ipc_in = None, ipc_out = None, tcpsocket = None, in_buf = [], ipc_pid = pid0,
      external_binary = [], external_binary_args = [], eventbus_callback_map = [],
      http_proxy_session_map = [], http_session_id = 0, write_cb = None, closure_cb = None,
      trace = []\<rparr>"

text \<open>
  The guarded block \<^verbatim>\<open>if (x.is_open()) { try { x.cancel(); x.close(); } catch (...) { ; } }\<close>
  for each of the three asio objects. The catch clause swallows what cancel or close raise;
  the object reports closed afterwards.
\<close>

definition close_ipc_in :: "kis_external_interface \<Rightarrow> kis_external_interface" where
  "close_ipc_in s =
     (if ipc_in s \<noteq> None then emit [Ev_cancel Ipc_in, Ev_close Ipc_in] (s\<lparr>ipc_in := None\<rparr>) else s)"

definition close_ipc_out :: "kis_external_interface \<Rightarrow> kis_external_interface" where
  "close_ipc_out s =
     (if ipc_out s \<noteq> None then emit [Ev_cancel Ipc_out, Ev_close Ipc_out] (s\<lparr>ipc_out := None\<rparr>) else s)"

definition close_tcpsocket :: "kis_external_interface \<Rightarrow> kis_external_interface" where
  "close_tcpsocket s =
     (if tcpsocket s \<noteq> None then emit [Ev_cancel Tcpsocket, Ev_close Tcpsocket] (s\<lparr>tcpsocket := None\<rparr>)
      else s)"

text \<open>The last block of both kill functions: deregister the child and signal it.\<close>

definition signal_child :: "signal \<Rightarrow> kis_external_interface \<Rightarrow> kis_external_interface" where
  "signal_child sig s =
     (if ipc_pid s > 0 then emit [Ev_remove_ipc (ipc_pid s), Ev_kill (ipc_pid s) sig] s else s)"

definition ipc_soft_kill :: "kis_external_interface \<Rightarrow> kis_external_interface" where
  "ipc_soft_kill s =
     (let s1 = s\<lparr>stopped := True, cancelled := True\<rparr>;
          s2 = close_ipc_in s1;
          s3 = close_ipc_out s2
      in signal_child SIGTERM s3)"

definition ipc_hard_kill :: "kis_external_interface \<Rightarrow> kis_external_interface" where
  "ipc_hard_kill s =
     (let s1 = s\<lparr>stopped := True, cancelled := True\<rparr>;
          s2 = close_ipc_in s1;
          s3 = close_ipc_out s2
      in signal_child SIGKILL s3)"

definition close_external :: "kis_external_interface \<Rightarrow> kis_external_interface" where
  "close_external s =
     (let s1 = s\<lparr>stopped := True, cancelled := True\<rparr>;
          s2 = emit (map (\<lambda>ebid. Ev_remove_listener (snd ebid)) (eventbus_callback_map s1)) s1;
          s3 = emit (concat (map (\<lambda>s. [Ev_stream_cancel (connection (snd s)),
                                          Ev_gate_unlock (locker (snd s)) None])
                                 (http_proxy_session_map s2))) s2;
          s4 = emit [Ev_remove_timer (ping_timer_id s3)] s3;
          s5 = ipc_hard_kill s4;
          s6 = close_tcpsocket s5
      in s6\<lparr>write_cb := None, closure_cb := None\<rparr>)"

definition trigger_error :: "env \<Rightarrow> kis_external_interface \<Rightarrow> string \<Rightarrow> kis_external_interface" where
  "trigger_error e s in_error =
     (if stopped s then s else close_external (handle_error e in_error s))"

text \<open>
  Posting a read: the completion handler runs later, from the reactor, and is not part of
  the call.
\<close>

definition start_ipc_read :: "kis_external_interface \<Rightarrow> kis_external_interface" where
  "start_ipc_read s = (if stopped s then s else emit [Ev_async_read Ipc_in] s)"

definition start_tcp_read :: "kis_external_interface \<Rightarrow> kis_external_interface" where
  "start_tcp_read s = (if stopped s then s else emit [Ev_async_read Tcpsocket] s)"

text \<open>
  \<^verbatim>\<open>attach_tcp_socket\<close>: \<open>socket\<close> is the descriptor moved in (\<open>None\<close> for a socket
  that is not open).
\<close>

definition attach_tcp_socket ::
  "kis_external_interface \<Rightarrow> int option \<Rightarrow> bool \<times> kis_external_interface" where
  "attach_tcp_socket s socket =
     (let s1 = s\<lparr>stopped := True, in_buf := []\<rparr>
      in if ipc_pid s1 > 0 then
           (False, msg (''Tried to attach a TCP socket to an external endpoint that already has '' @
                        ''an IPC instance running.'') MSGFLAG_ERROR s1)
         else
           (let s2 = s1\<lparr>tcpsocket := socket\<rparr>;
                s3 = s2\<lparr>stopped := False, cancelled := False\<rparr>
            in (True, start_tcp_read s3)))"

section \<open>Outbound send path\<close>

text \<open>The pre-increment with its wrap test, \<^verbatim>\<open>if (++seqno == 0) seqno = 1;\<close>.\<close>

definition next_seqno :: "u32 \<Rightarrow> u32" where
  "next_seqno n = (if n + 1 = 0 then 1 else n + 1)"

text \<open>Lines 459-484: the frame built around the serialised command.\<close>

definition frame_of :: "env \<Rightarrow> Command \<Rightarrow> frame" where
  "frame_of e c =
     (let payload = serialize_Command e c
      in \<lparr>signature = KIS_EXTERNAL_PROTO_SIG e, data_sz = of_nat (length payload),
          data_checksum = adler32_checksum e payload, data = payload\<rparr>)"

text \<open>
  \<^verbatim>\<open>send_packet\<close> returns its result, the command object as the call leaves it (the
  caller shares it), and the endpoint. The completion handlers of the asynchronous
  writes run later and are not part of the call.
\<close>

definition send_packet ::
  "env \<Rightarrow> kis_external_interface \<Rightarrow> Command \<Rightarrow> u32 \<times> Command \<times> kis_external_interface" where
  "send_packet e s c =
     (let s1 = (if c_seqno c = 0 then s\<lparr>seqno := next_seqno (seqno s)\<rparr> else s);
          c1 = (if c_seqno c = 0 then c\<lparr>c_seqno := seqno s1\<rparr> else c);
          fr = frame_of e c1
      in if write_cb s1 \<noteq> None then (c_seqno c1, c1, emit [Ev_write Write_cb fr] s1)
         else if ipc_out s1 \<noteq> None then (c_seqno c1, c1, emit [Ev_write Ipc_out fr] s1)
         else if tcpsocket s1 \<noteq> None then (c_seqno c1, c1, emit [Ev_write Tcpsocket fr] s1)
         else (0, c1,
               trigger_error e
                 (msg ''Kismet external interface got an error writing packet, no connections''
                    MSGFLAG_ERROR s1)
                 ''no connections''))"

text \<open>A run of consecutive \<^verbatim>\<open>send_packet\<close> calls, one per command of the list.\<close>

fun send_packets ::
  "env \<Rightarrow> kis_external_interface \<Rightarrow> Command list \<Rightarrow> (u32 \<times> Command) list \<times> kis_external_interface" where
  "send_packets e s [] = ([], s)"
| "send_packets e s (c # cs) =
     (case send_packet e s c of (r, c', s') \<Rightarrow>
        (case send_packets e s' cs of (rs, s'') \<Rightarrow> ((r, c') # rs, s'')))"

section \<open>Child launcher\<close>

text \<open>The \<^verbatim>\<open>sys/stat.h\<close> mode bits the code tests (octal 0170000, 040000, 0100, 01).\<close>

definition S_IFMT :: u32 where "S_IFMT = 61440"
definition S_IFDIR :: u32 where "S_IFDIR = 16384"
definition S_IXUSR :: u32 where "S_IXUSR = 64"
definition S_IXOTH :: u32 where "S_IXOTH = 1"

definition S_ISDIR :: "u32 \<Rightarrow> bool" where
  "S_ISDIR m = (m AND S_IFMT = S_IFDIR)"

text \<open>The loop of \<^verbatim>\<open>check_ipc\<close> (lines 253-265) over the remaining search paths.\<close>

fun check_ipc_paths :: "env \<Rightarrow> string \<Rightarrow> string list \<Rightarrow> bool" where
  "check_ipc_paths e in_binary [] = False"
| "check_ipc_paths e in_binary (rp # rps) =
     (let fp = expand_log_path e rp @ ''/'' @ in_binary
      in case stat e fp of
           None \<Rightarrow> check_ipc_paths e in_binary rps
         | Some fstat \<Rightarrow>
             if S_ISDIR (st_mode fstat) then check_ipc_paths e in_binary rps
             else if S_IXUSR AND st_mode fstat \<noteq> 0 then True
             else check_ipc_paths e in_binary rps)"

definition check_ipc :: "env \<Rightarrow> string \<Rightarrow> bool" where
  "check_ipc e in_binary =
     (let v = fetch_opt_vec e ''helper_binary_path'';
          bin_paths = (if length v = 0 then v @ [''%B''] else v)
      in check_ipc_paths e in_binary bin_paths)"

text \<open>
  The search loop of \<^verbatim>\<open>run_ipc\<close> (lines 296-309): the path found, with the
  \<^verbatim>\<open>fstat\<close> the loop leaves behind. \<^verbatim>\<open>helper_path\<close> stays empty exactly when
  nothing is found, since every candidate contains a slash.
\<close>

fun find_helper :: "env \<Rightarrow> string \<Rightarrow> string list \<Rightarrow> (string \<times> stat_t) option" where
  "find_helper e binary [] = None"
| "find_helper e binary (rp # rps) =
     (let fp = expand_log_path e rp @ ''/'' @ binary
      in case stat e fp of
           None \<Rightarrow> find_helper e binary rps
         | Some fstat \<Rightarrow>
             if S_ISDIR (st_mode fstat) then find_helper e binary rps
             else if S_IXUSR AND st_mode fstat \<noteq> 0 then Some (fp, fstat)
             else find_helper e binary rps)"

text \<open>
  Lines 318-351: true when the permission probe ends in the "setgid" error.
  \<open>getgroups e\<close> is the supplementary group list; a failing \<^verbatim>\<open>getgroups\<close> call
  runs the inner loop zero times, as the empty list does.
\<close>

definition group_denied :: "env \<Rightarrow> stat_t \<Rightarrow> bool" where
  "group_denied e fstat =
     (if \<not> (st_mode fstat AND S_IXOTH \<noteq> 0) then
        if getuid e \<noteq> st_uid fstat \<and> getuid e \<noteq> 0 then
          if getgid e \<noteq> st_gid fstat then
            (let group_ok = (st_gid fstat \<in> set (getgroups e)) in \<not> group_ok)
          else False
        else False
      else False)"

text \<open>
  What a call of \<^verbatim>\<open>run_ipc\<close> ends in: a return value in the calling process, or, in
  the forked child, \<^verbatim>\<open>execvp\<close> of the helper with
  \<^verbatim>\<open>--in-fd=<in> --out-fd=<out>\<close> and the configured arguments (then \<^verbatim>\<open>exit(255)\<close>).
\<close>

datatype run_result = Returned bool | Child_execvp string int int "string list"

definition run_ipc :: "env \<Rightarrow> kis_external_interface \<Rightarrow> run_result \<times> kis_external_interface" where
  "run_ipc e s =
     (let s1 = s\<lparr>stopped := True, in_buf := []\<rparr>
      in if external_binary s1 = [] then
           (Returned False,
            msg ''Kismet external interface did not have an IPC binary to launch'' MSGFLAG_ERROR s1)
         else
           (let v = fetch_opt_vec e ''helper_binary_path'';
                s2 = (if length v = 0 then
                        msg (''No helper_binary_path found in kismet.conf, make sure your config '' @
                             ''files are up to date; using the default binary path where Kismet '' @
                             ''is installed.'') MSGFLAG_ERROR s1
                      else s1);
                bin_paths = (if length v = 0 then v @ [''%B''] else v)
            in case find_helper e (external_binary s2) bin_paths of
                 None \<Rightarrow>
                   (Returned False,
                    msg (''Kismet external interface can not find IPC binary for launch: '' @
                         external_binary s2) MSGFLAG_ERROR s2)
               | Some (helper_path, fstat) \<Rightarrow>
                   if group_denied e fstat then
                     (Returned False,
                      msg (''IPC cannot run binary '' @ [CHR 39] @ helper_path @ [CHR 39] @
                           '', Kismet was installed '' @
                           ''setgid and you are not in that group. If you recently added your '' @
                           ''user to the kismet group, you will need to log out and back in to '' @
                           ''activate it.  You can check your groups with the '' @ [CHR 39] @
                           ''groups'' @ [CHR 39] @ '' command.'') MSGFLAG_ERROR s2)
                   else
                     (case pipe_in e of
                        None \<Rightarrow>
                          (Returned False,
                           msg (''IPC could not create pipe: '' @ kis_strerror_r e) MSGFLAG_ERROR s2)
                      | Some inpipepair \<Rightarrow>
                          (case pipe_out e of
                             None \<Rightarrow>
                               (Returned False,
                                emit [Ev_close_fd (fst inpipepair), Ev_close_fd (snd inpipepair)]
                                  (msg (''IPC could not create pipe: '' @ kis_strerror_r e)
                                     MSGFLAG_ERROR s2))
                           | Some outpipepair \<Rightarrow>
                               (let child_pid = fork e
                                in if child_pid < 0 then
                                     (Returned False,
                                      emit [Ev_close_fd (fst inpipepair), Ev_close_fd (snd inpipepair),
                                            Ev_close_fd (fst outpipepair), Ev_close_fd (snd outpipepair)]
                                        (msg (''IPC could not fork(): '' @ kis_strerror_r e)
                                           MSGFLAG_ERROR s2))
                                   else if child_pid = 0 then
                                     (Child_execvp helper_path (fst inpipepair) (snd outpipepair)
                                        (external_binary_args s2),
                                      emit [Ev_close_fd (snd inpipepair), Ev_close_fd (fst outpipepair)] s2)
                                   else
                                     (let s3 = emit [Ev_close_fd (fst inpipepair),
                                                     Ev_close_fd (snd outpipepair)] s2;
                                          s4 = s3\<lparr>ipc_out := Some (snd inpipepair),
                                                  ipc_in := Some (fst outpipepair)\<rparr>;
                                          s5 = s4\<lparr>ipc_pid := child_pid\<rparr>;
                                          s6 = emit [Ev_register_ipc child_pid] s5;
                                          s7 = s6\<lparr>stopped := False, cancelled := False\<rparr>
                                      in (Returned True, start_ipc_read s7)))))))"

section \<open>Built-in command handlers\<close>

definition handle_msg_proxy :: "kis_external_interface \<Rightarrow> string \<Rightarrow> int \<Rightarrow> kis_external_interface" where
  "handle_msg_proxy s m t = msg m (Msgflag_raw t) s"

definition handle_packet_message ::
  "env \<Rightarrow> kis_external_interface \<Rightarrow> u32 \<Rightarrow> string \<Rightarrow> kis_external_interface" where
  "handle_packet_message e s in_seqno in_content =
     (case parse_MsgbusMessage e in_content of
        None \<Rightarrow>
          trigger_error e
            (msg ''Kismet external interface got an unparsable MESSAGE'' MSGFLAG_ERROR s)
            ''Invalid MESSAGE''
      | Some m \<Rightarrow> handle_msg_proxy s (msgtext m) (msgtype m))"

text \<open>\<^verbatim>\<open>new KismetExternal::Command()\<close> starts with \<open>seqno = 0\<close>.\<close>

definition send_pong :: "env \<Rightarrow> kis_external_interface \<Rightarrow> u32 \<Rightarrow> u32 \<times> kis_external_interface" where
  "send_pong e s ping_seqno =
     (let c = \<lparr>c_command = ''PONG'', c_seqno = 0, c_content = serialize_Pong e ping_seqno\<rparr>
      in case send_packet e s c of (r, c', s') \<Rightarrow> (r, s'))"

definition send_http_auth :: "env \<Rightarrow> kis_external_interface \<Rightarrow> string \<Rightarrow> u32 \<times> kis_external_interface" where
  "send_http_auth e s in_cookie =
     (let c = \<lparr>c_command = ''HTTPAUTH'', c_seqno = 0,
                c_content = serialize_HttpAuthToken e in_cookie\<rparr>
      in case send_packet e s c of (r, c', s') \<Rightarrow> (r, s'))"

definition handle_packet_ping ::
  "env \<Rightarrow> kis_external_interface \<Rightarrow> u32 \<Rightarrow> string \<Rightarrow> kis_external_interface" where
  "handle_packet_ping e s in_seqno in_content = snd (send_pong e s in_seqno)"

definition handle_packet_pong ::
  "env \<Rightarrow> kis_external_interface \<Rightarrow> u32 \<Rightarrow> string \<Rightarrow> kis_external_interface" where
  "handle_packet_pong e s in_seqno in_content =
     (case parse_Pong e in_content of
        None \<Rightarrow>
          trigger_error e
            (msg ''Kismet external interface got an unparsable PONG packet'' MSGFLAG_ERROR s)
            ''Invalid PONG''
      | Some p \<Rightarrow> s\<lparr>last_pong := time_now e\<rparr>)"

definition handle_packet_shutdown ::
  "env \<Rightarrow> kis_external_interface \<Rightarrow> u32 \<Rightarrow> string \<Rightarrow> kis_external_interface" where
  "handle_packet_shutdown e s in_seqno in_content =
     (case parse_ExternalShutdown e in_content of
        None \<Rightarrow>
          trigger_error e
            (msg ''Kismet external interface got an unparsable SHUTDOWN'' MSGFLAG_ERROR s)
            ''invalid SHUTDOWN''
      | Some reason \<Rightarrow>
          trigger_error e
            (msg (''Kismet external interface shutting down: '' @ reason) MSGFLAG_INFO s)
            (''Remote connection requesting shutdown: '' @ reason))"

text \<open>\<^verbatim>\<open>m[k] = v\<close> on a \<^verbatim>\<open>std::map\<close>, kept in key order.\<close>

fun map_set :: "'k::linorder \<Rightarrow> 'v \<Rightarrow> ('k \<times> 'v) list \<Rightarrow> ('k \<times> 'v) list" where
  "map_set k v [] = [(k, v)]"
| "map_set k v (kv # m) =
     (if k = fst kv then (k, v) # m
      else if k < fst kv then (k, v) # kv # m
      else kv # map_set k v m)"

text \<open>The loop of \<^verbatim>\<open>handle_packet_eventbus_register\<close> over the events still to register.\<close>

fun register_events :: "env \<Rightarrow> kis_external_interface \<Rightarrow> string list \<Rightarrow> kis_external_interface" where
  "register_events e s [] = s"
| "register_events e s (ev # evs) =
     (let s1 = (case map_of (eventbus_callback_map s) ev of
                  Some k \<Rightarrow> emit [Ev_remove_listener k] s
                | None \<Rightarrow> s);
          eid = register_listener e (trace s1) ev;
          s2 = emit [Ev_register_listener ev eid] s1;
          s3 = s2\<lparr>eventbus_callback_map := map_set ev eid (eventbus_callback_map s2)\<rparr>
      in register_events e s3 evs)"

definition handle_packet_eventbus_register ::
  "env \<Rightarrow> kis_external_interface \<Rightarrow> u32 \<Rightarrow> string \<Rightarrow> kis_external_interface" where
  "handle_packet_eventbus_register e s in_seqno in_content =
     (case parse_EventbusRegisterListener e in_content of
        None \<Rightarrow>
          trigger_error e
            (msg ''Kismet external interface got an unparseable EVENTBUSREGISTER'' MSGFLAG_ERROR s)
            ''Invalid EVENTBUSREGISTER''
      | Some evtlisten \<Rightarrow> register_events e s evtlisten)"

definition handle_packet_eventbus_publish ::
  "env \<Rightarrow> kis_external_interface \<Rightarrow> u32 \<Rightarrow> string \<Rightarrow> kis_external_interface" where
  "handle_packet_eventbus_publish e s in_seqno in_content =
     (case parse_EventbusPublishEvent e in_content of
        None \<Rightarrow>
          trigger_error e
            (msg ''Kismet external interface got unparseable EVENTBUSPUBLISH'' MSGFLAG_ERROR s)
            ''Invalid EVENTBUSPUBLISH''
      | Some evtpub \<Rightarrow> emit [Ev_publish (event_type evtpub) (event_content_json evtpub)] s)"

text \<open>
  The route handler registered here runs later, on the HTTP server's threads; only the
  registration belongs to the call.
\<close>

definition handle_packet_http_register ::
  "env \<Rightarrow> kis_external_interface \<Rightarrow> u32 \<Rightarrow> string \<Rightarrow> kis_external_interface" where
  "handle_packet_http_register e s in_seqno in_content =
     (case parse_HttpRegisterUri e in_content of
        None \<Rightarrow>
          trigger_error e
            (msg ''Kismet external interface got an unparsable HTTPREGISTERURI'' MSGFLAG_ERROR s)
            ''Invalid HTTPREGISTERURI''
      | Some u \<Rightarrow> emit [Ev_register_route (uri u) (http_method u)] s)"

text \<open>
  The closure callback that the route handler installs on the connection of a parked
  session (line 751): it releases the gate with the failure value -1.
\<close>

definition session_closure_cb ::
  "kis_external_http_session \<Rightarrow> kis_external_interface \<Rightarrow> kis_external_interface" where
  "session_closure_cb session s = emit [Ev_gate_unlock (locker session) (Some (- 1))] s"

text \<open>
  The header loop inside its \<^verbatim>\<open>try\<close> block: \<open>Some what\<close> when
  \<^verbatim>\<open>append_header\<close> raised \<^verbatim>\<open>std::runtime_error\<close>, with the endpoint as the
  headers appended before left it.
\<close>

fun append_headers ::
  "env \<Rightarrow> kis_external_interface \<Rightarrow> nat \<Rightarrow> (string \<times> string) list
     \<Rightarrow> string option \<times> kis_external_interface" where
  "append_headers e s con [] = (None, s)"
| "append_headers e s con (hh # hs) =
     (case append_header_throws e (trace s) con (fst hh) (snd hh) of
        Some what \<Rightarrow> (Some what, s)
      | None \<Rightarrow> append_headers e (emit [Ev_append_header con (fst hh) (snd hh)] s) con hs)"

text \<open>The second \<^verbatim>\<open>try\<close> block (lines 804-812).\<close>

definition set_connection_status ::
  "env \<Rightarrow> kis_external_interface \<Rightarrow> nat \<Rightarrow> u32 option \<Rightarrow> string option \<times> kis_external_interface" where
  "set_connection_status e s con rc =
     (case rc of
        None \<Rightarrow> (None, s)
      | Some code \<Rightarrow>
          (case set_status_throws e (trace s) con code of
             Some what \<Rightarrow> (Some what, s)
           | None \<Rightarrow> (None, emit [Ev_set_status con code] s)))"

definition handle_packet_http_response ::
  "env \<Rightarrow> kis_external_interface \<Rightarrow> u32 \<Rightarrow> string \<Rightarrow> kis_external_interface" where
  "handle_packet_http_response e s in_seqno in_content =
     (case parse_HttpResponse e in_content of
        None \<Rightarrow>
          trigger_error e
            (msg ''Kismet external interface got an unparsable HTTPRESPONSE'' MSGFLAG_ERROR s)
            ''Invalid  HTTPRESPONSE''
      | Some resp \<Rightarrow>
          (case map_of (http_proxy_session_map s) (req_id resp) of
             None \<Rightarrow>
               trigger_error e
                 (msg ''Kismet external interface got a HTTPRESPONSE for an unknown session''
                    MSGFLAG_ERROR s)
                 ''Invalid HTTPRESPONSE session''
           | Some session \<Rightarrow>
               (case append_headers e s (connection session) (header_content resp) of
                  (Some what, s1) \<Rightarrow>
                    trigger_error e
                      (msg (''Kismet external interface failed setting HTTPRESPONSE headers - '' @ what)
                         MSGFLAG_ERROR s1)
                      ''Invalid HTTPRESPONSE header block''
                | (None, s1) \<Rightarrow>
                    (case set_connection_status e s1 (connection session) (resultcode resp) of
                       (Some what, s2) \<Rightarrow>
                         trigger_error e
                           (msg (''Kismet external interface failed setting HTTPRESPONSE status code- '' @
                                 what) MSGFLAG_ERROR s2)
                           ''invalid HTTPRESPONSE status code''
                     | (None, s2) \<Rightarrow>
                         (let s3 = (case content resp of
                                      None \<Rightarrow> s2
                                    | Some d \<Rightarrow>
                                        if length d > 0 then
                                          emit [Ev_stream_put_data (connection session) d] s2
                                        else s2)
                          in if close_response resp = Some True then
                               emit [Ev_stream_complete (connection session),
                                     Ev_gate_unlock (locker session) None] s3
                             else s3)))))"

definition handle_packet_http_auth_request ::
  "env \<Rightarrow> kis_external_interface \<Rightarrow> u32 \<Rightarrow> string \<Rightarrow> kis_external_interface" where
  "handle_packet_http_auth_request e s in_seqno in_content =
     (case parse_HttpAuthTokenRequest e in_content of
        None \<Rightarrow>
          trigger_error e
            (msg ''Kismet external interface got an unparsable HTTPAUTHREQ'' MSGFLAG_ERROR s)
            ''Invalid HTTPAUTHREQ''
      | Some rt \<Rightarrow>
          (let token = create_auth e (trace s);
               s1 = emit [Ev_create_auth] s
           in snd (send_http_auth e s1 token)))"

definition dispatch_rx_packet ::
  "env \<Rightarrow> kis_external_interface \<Rightarrow> Command \<Rightarrow> bool \<times> kis_external_interface" where
  "dispatch_rx_packet e s c =
     (if c_command c = ''MESSAGE'' then
        (True, handle_packet_message e s (c_seqno c) (c_content c))
      else if c_command c = ''PING'' then
        (True, handle_packet_ping e s (c_seqno c) (c_content c))
      else if c_command c = ''PONG'' then
        (True, handle_packet_pong e s (c_seqno c) (c_content c))
      else if c_command c = ''SHUTDOWN'' then
        (True, handle_packet_shutdown e s (c_seqno c) (c_content c))
      else if c_command c = ''HTTPREGISTERURI'' then
        (True, handle_packet_http_register e s (c_seqno c) (c_content c))
      else if c_command c = ''HTTPRESPONSE'' then
        (True, handle_packet_http_response e s (c_seqno c) (c_content c))
      else if c_command c = ''HTTPAUTHREQ'' then
        (True, handle_packet_http_auth_request e s (c_seqno c) (c_content c))
      else if c_command c = ''EVENTBUSREGISTER'' then
        (True, handle_packet_eventbus_register e s (c_seqno c) (c_content c))
      else if c_command c = ''EVENTBUSPUBLISH'' then
        (True, handle_packet_eventbus_publish e s (c_seqno c) (c_content c))
      else (False, s))"

section \<open>Vocabulary of the statements\<close>

text \<open>An outbound path is active: one of the three branches of \<^verbatim>\<open>send_packet\<close> that write.\<close>

definition has_transport :: "kis_external_interface \<Rightarrow> bool" where
  "has_transport s = (write_cb s \<noteq> None \<or> ipc_out s \<noteq> None \<or> tcpsocket s \<noteq> None)"

text \<open>The path \<^verbatim>\<open>send_packet\<close> picks, in the order of its tests.\<close>

definition tx_handle :: "kis_external_interface \<Rightarrow> handle" where
  "tx_handle s =
     (if write_cb s \<noteq> None then Write_cb else if ipc_out s \<noteq> None then Ipc_out else Tcpsocket)"

text \<open>The events a call appended: the trace after it, without the trace before it.\<close>

definition events_since :: "kis_external_interface \<Rightarrow> kis_external_interface \<Rightarrow> event list" where
  "events_since s s' = drop (length (trace s)) (trace s')"

text \<open>The next \<open>k\<close> values of the sequence counter, starting after \<open>n\<close>.\<close>

fun seqnos_from :: "u32 \<Rightarrow> nat \<Rightarrow> u32 list" where
  "seqnos_from n 0 = []"
| "seqnos_from n (Suc k) = next_seqno n # seqnos_from (next_seqno n) k"

text \<open>
  Position of a counter value on the cycle 1, 2, ..., 2^32 - 1 that \<open>next_seqno\<close> walks
  (0 sits where 2^32 - 1 does: both are followed by 1).
\<close>

definition seq_pos :: "u32 \<Rightarrow> nat" where
  "seq_pos n = (unat n + 4294967294) mod 4294967295"

text \<open>
  The collaborator calls of one \<^verbatim>\<open>close_external\<close>, in program order: listeners,
  parked sessions, ping timer, the hard kill, the TCP socket.
\<close>

definition teardown_events :: "kis_external_interface \<Rightarrow> event list" where
  "teardown_events s =
     map (\<lambda>ebid. Ev_remove_listener (snd ebid)) (eventbus_callback_map s)
     @ concat (map (\<lambda>x. [Ev_stream_cancel (connection (snd x)), Ev_gate_unlock (locker (snd x)) None])
                 (http_proxy_session_map s))
     @ [Ev_remove_timer (ping_timer_id s)]
     @ (if ipc_in s \<noteq> None then [Ev_cancel Ipc_in, Ev_close Ipc_in] else [])
     @ (if ipc_out s \<noteq> None then [Ev_cancel Ipc_out, Ev_close Ipc_out] else [])
     @ (if ipc_pid s > 0 then [Ev_remove_ipc (ipc_pid s), Ev_kill (ipc_pid s) SIGKILL] else [])
     @ (if tcpsocket s \<noteq> None then [Ev_cancel Tcpsocket, Ev_close Tcpsocket] else [])"

text \<open>The search paths of \<^verbatim>\<open>check_ipc\<close> and \<^verbatim>\<open>run_ipc\<close>, after the "%B" default.\<close>

definition helper_paths :: "env \<Rightarrow> string list" where
  "helper_paths e =
     (let v = fetch_opt_vec e ''helper_binary_path'' in if length v = 0 then v @ [''%B''] else v)"

text \<open>The \<^verbatim>\<open>append_header\<close> calls for a list of headers, in order.\<close>

definition header_events :: "nat \<Rightarrow> (string \<times> string) list \<Rightarrow> event list" where
  "header_events con hs = map (\<lambda>hh. Ev_append_header con (fst hh) (snd hh)) hs"

text \<open>
  What the connection answers to the \<open>j\<close>-th \<^verbatim>\<open>append_header\<close> call of one handling,
  the \<open>j\<close> headers before it having been appended: \<open>Some what\<close> when it raises.
\<close>

definition header_call_raises ::
  "env \<Rightarrow> kis_external_interface \<Rightarrow> nat \<Rightarrow> (string \<times> string) list \<Rightarrow> nat \<Rightarrow> string option" where
  "header_call_raises e s con hs j =
     append_header_throws e (trace s @ header_events con (take j hs)) con (fst (hs ! j)) (snd (hs ! j))"

section \<open>Sample environment and endpoints\<close>

text \<open>
  A concrete environment for the examples: the error hook records its message, parsers
  reject every input, no helper path is configured and no file exists.
\<close>

definition sample_env :: env where
  "sample_env =
     \<lparr>handle_error = (\<lambda>m s. emit [Ev_handle_error m] s),
      KIS_EXTERNAL_PROTO_SIG = 3735928559,
      adler32_checksum = (\<lambda>d. of_nat (length d)),
      serialize_Command = (\<lambda>c. c_command c @ c_content c),
      serialize_Pong = (\<lambda>n. if n = 7 then ''seven'' else ''other''),
      serialize_HttpAuthToken = (\<lambda>t. t),
      parse_MsgbusMessage = (\<lambda>b. None),
      parse_Pong = (\<lambda>b. None),
      parse_ExternalShutdown = (\<lambda>b. None),
      parse_EventbusRegisterListener = (\<lambda>b. None),
      parse_EventbusPublishEvent = (\<lambda>b. None),
      parse_HttpRegisterUri = (\<lambda>b. None),
      parse_HttpResponse = (\<lambda>b. None),
      parse_HttpAuthTokenRequest = (\<lambda>b. None),
      register_listener = (\<lambda>tr n. length tr),
      append_header_throws = (\<lambda>tr con h c. None),
      set_status_throws = (\<lambda>tr con rc. None),
      create_auth = (\<lambda>tr. ''token''),
      time_now = 1000,
      fetch_opt_vec = (\<lambda>k. []),
      expand_log_path = (\<lambda>p. p),
      stat = (\<lambda>p. None),
      getuid = 1000,
      getgid = 1000,
      getgroups = [],
      pipe_in = Some (3, 4),
      pipe_out = Some (5, 6),
      fork = 4242,
      kis_strerror_r = ''error''\<rparr>"

text \<open>An endpoint with an attached, open TCP socket.\<close>

definition tcp_endpoint :: kis_external_interface where
  "tcp_endpoint = snd (attach_tcp_socket (kis_external_interface_new 0) (Some 7))"

text \<open>An endpoint with a running child (pid 4242) on a pipe pair, and bytes in its buffer.\<close>

definition ipc_endpoint :: kis_external_interface where
  "ipc_endpoint =
     (kis_external_interface_new 0)
       \<lparr>stopped := False, ipc_in := Some 5, ipc_out := Some 4, ipc_pid := 4242,
        external_binary := ''helper'', in_buf := ''partial frame'',
        trace := [Ev_close_fd 3, Ev_close_fd 6, Ev_register_ipc 4242, Ev_async_read Ipc_in]\<rparr>"

text \<open>A TCP endpoint with two event-bus listeners, two parked HTTP sessions and a ping timer.\<close>

definition busy_endpoint :: kis_external_interface where
  "busy_endpoint =
     tcp_endpoint
       \<lparr>ping_timer_id := 5,
        eventbus_callback_map := [(''ALERT'', 11), (''TIMESTAMP'', 12)],
        http_proxy_session_map := [(0, \<lparr>connection = 100, locker = 200\<rparr>),
                                   (1, \<lparr>connection = 101, locker = 201\<rparr>)],
        http_session_id := 2, write_cb := Some 1, closure_cb := Some 2\<rparr>"

definition ping_command :: Command where
  "ping_command = \<lparr>c_command = ''PING'', c_seqno = 0, c_content = []\<rparr>"

text \<open>
  An HTTPRESPONSE for session 0, and environments that parse every payload to it, to the
  same response for session 9, and whose connection refuses headers.
\<close>

definition sample_response :: HttpResponse where
  "sample_response =
     \<lparr>req_id = 0, header_content = [(''X-T'', ''v''), (''X-U'', ''w'')], resultcode = Some 200,
      content = Some ''hi'', close_response = Some True\<rparr>"

definition http_env :: env where
  "http_env = sample_env\<lparr>parse_HttpResponse := (\<lambda>b. Some sample_response)\<rparr>"

definition unknown_session_env :: env where
  "unknown_session_env = sample_env\<lparr>parse_HttpResponse := (\<lambda>b. Some (sample_response\<lparr>req_id := 9\<rparr>))\<rparr>"

definition rejecting_env :: env where
  "rejecting_env = http_env\<lparr>append_header_throws := (\<lambda>tr con h c. Some ''in progress'')\<rparr>"

text \<open>
  A connection that takes one header and refuses the next, and one that takes headers but
  refuses a status.
\<close>

definition second_header_env :: env where
  "second_header_env =
     http_env\<lparr>append_header_throws :=
       (\<lambda>tr con h c. if Ev_append_header con ''X-T'' ''v'' \<in> set tr then Some ''in progress'' else None)\<rparr>"

definition status_rejecting_env :: env where
  "status_rejecting_env = http_env\<lparr>set_status_throws := (\<lambda>tr con rc. Some ''in progress'')\<rparr>"

text \<open>An endpoint to which a socket that is not open was attached: running, no outbound path.\<close>

definition unplugged_endpoint :: kis_external_interface where
  "unplugged_endpoint = snd (attach_tcp_socket (kis_external_interface_new 0) None)"

text \<open>
  File modes (a directory 040755, regular files 0100755 and 0100644), environments whose
  file system holds a helper, and an endpoint configured to launch it.
\<close>

definition dir_mode :: u32 where "dir_mode = 16877"
definition exec_mode :: u32 where "exec_mode = 33261"
definition plain_mode :: u32 where "plain_mode = 33188"

definition noexec_env :: env where
  "noexec_env =
     sample_env
       \<lparr>fetch_opt_vec := (\<lambda>k. if k = ''helper_binary_path'' then [''/no'', ''/tmp''] else []),
        stat := (\<lambda>p. if p = ''/no/helper'' then Some \<lparr>st_mode = dir_mode, st_uid = 0, st_gid = 0\<rparr>
                     else if p = ''/tmp/helper'' then Some \<lparr>st_mode = plain_mode, st_uid = 0, st_gid = 0\<rparr>
                     else None)\<rparr>"

definition exec_env :: env where
  "exec_env =
     sample_env
       \<lparr>fetch_opt_vec := (\<lambda>k. if k = ''helper_binary_path'' then [''/no'', ''/tmp''] else []),
        stat := (\<lambda>p. if p = ''/no/helper'' then Some \<lparr>st_mode = dir_mode, st_uid = 0, st_gid = 0\<rparr>
                     else if p = ''/tmp/helper'' then Some \<lparr>st_mode = exec_mode, st_uid = 0, st_gid = 0\<rparr>
                     else None)\<rparr>"

definition default_path_env :: env where
  "default_path_env =
     sample_env
       \<lparr>expand_log_path := (\<lambda>p. if p = ''%B'' then ''/usr/bin'' else p),
        stat := (\<lambda>p. if p = ''/usr/bin/helper'' then Some \<lparr>st_mode = exec_mode, st_uid = 0, st_gid = 0\<rparr>
                     else None)\<rparr>"

definition helper_endpoint :: kis_external_interface where
  "helper_endpoint = (kis_external_interface_new 0)\<lparr>external_binary := ''helper''\<rparr>"

section \<open>Sequence numbers of the send path\<close>

lemma next_seqno_nz: "next_seqno n \<noteq> 0"
  by (simp add: next_seqno_def)

lemma unat_u32_bound: "unat (n :: u32) < 4294967296"
proof -
  have "unat n < 2 ^ LENGTH(32)" by (rule unsigned_less)
  then show ?thesis by simp
qed

lemma unat_next_seqno:
  "unat (next_seqno n) = (if unat n = 4294967295 then 1 else unat n + 1)"
proof -
  have lt: "unat n < 4294967296" by (rule unat_u32_bound)
  have u: "unat (n + 1) = (unat n + 1) mod 4294967296" by (simp add: unat_word_ariths)
  have z: "(n + 1 = 0) = (unat (n + 1) = 0)" by (simp add: unat_eq_0)
  show ?thesis
  proof (cases "unat n = 4294967295")
    case True
    with u z show ?thesis by (simp add: next_seqno_def)
  next
    case False
    with lt have "unat n + 1 < 4294967296" by arith
    with u have "unat (n + 1) = unat n + 1" by simp
    with z False show ?thesis by (simp add: next_seqno_def)
  qed
qed

lemma mod_shift_aux: "0 < x \<Longrightarrow> x \<le> M \<Longrightarrow> (x + (M - 1)) mod M = x - (1::nat)"
proof -
  assume a: "0 < x" "x \<le> M"
  then have "x + (M - 1) = (x - 1) + M" by arith
  then have "(x + (M - 1)) mod M = (x - 1 + M) mod M" by (rule arg_cong)
  also have "\<dots> = (x - 1) mod M" by (rule mod_add_self2)
  also have "\<dots> = x - 1" using a by (intro mod_less) arith
  finally show ?thesis .
qed

lemma seq_pos_nz: "n \<noteq> 0 \<Longrightarrow> seq_pos n = unat n - 1"
proof -
  assume "n \<noteq> 0"
  then have "0 < unat n" by (simp add: unat_gt_0)
  moreover have "unat n \<le> 4294967295" using unat_u32_bound [of n] by arith
  ultimately show ?thesis
    using mod_shift_aux [of "unat n" 4294967295] by (simp add: seq_pos_def)
qed

lemma seq_pos_next: "seq_pos (next_seqno n) = (seq_pos n + 1) mod 4294967295"
proof (cases "n = 0")
  case True
  then show ?thesis by (simp add: seq_pos_def next_seqno_def)
next
  case False
  then have p: "0 < unat n" by (simp add: unat_gt_0)
  have sn: "seq_pos n = unat n - 1" using False by (rule seq_pos_nz)
  have sx: "seq_pos (next_seqno n) = unat (next_seqno n) - 1"
    using next_seqno_nz by (rule seq_pos_nz)
  show ?thesis
  proof (cases "unat n = 4294967295")
    case True
    then show ?thesis using sn sx by (simp add: unat_next_seqno)
  next
    case False
    then have "unat n < 4294967295" using unat_u32_bound [of n] by arith
    then show ?thesis using sn sx p by (simp add: unat_next_seqno)
  qed
qed

lemma seq_pos_funpow: "seq_pos ((next_seqno ^^ k) n) = (seq_pos n + k) mod 4294967295"
proof (induction k)
  case 0
  show ?case by (simp add: seq_pos_def)
next
  case (Suc k)
  show ?case by (simp add: seq_pos_next Suc mod_simps)
qed

lemma seq_pos_inj: "a \<noteq> 0 \<Longrightarrow> b \<noteq> 0 \<Longrightarrow> seq_pos a = seq_pos b \<Longrightarrow> a = b"
proof -
  assume a: "a \<noteq> 0" and b: "b \<noteq> 0" and e: "seq_pos a = seq_pos b"
  have "0 < unat a" "0 < unat b" using a b by (simp_all add: unat_gt_0)
  moreover have "unat a - 1 = unat b - 1" using a b e by (simp add: seq_pos_nz)
  ultimately have "unat a = unat b" by arith
  then show "a = b" by (simp add: word_unat_eq_iff)
qed

lemma mod_window_aux:
  assumes "i < j" "j - i < M" "((a::nat) + i) mod M = (a + j) mod M"
  shows False
proof -
  have "a + i \<le> a + j" using assms(1) by simp
  then have "M dvd (a + j) - (a + i)"
    using assms(3) by (simp only: mod_eq_dvd_iff_nat [symmetric])
  then have "M dvd j - i" by simp
  then have "M \<le> j - i" using assms(1) by (simp add: dvd_imp_le)
  with assms(2) show False by simp
qed

lemma funpow_distinct:
  assumes "i < j" "j \<le> 4294967295" "0 < i"
  shows "(next_seqno ^^ i) n \<noteq> (next_seqno ^^ j) n"
proof
  assume eq: "(next_seqno ^^ i) n = (next_seqno ^^ j) n"
  then have "(seq_pos n + i) mod 4294967295 = (seq_pos n + j) mod 4294967295"
    using seq_pos_funpow [of i n] seq_pos_funpow [of j n] by simp
  moreover have "j - i < 4294967295" using assms by arith
  ultimately show False using assms(1) mod_window_aux by blast
qed

lemma send_packet_ok:
  assumes "has_transport s" "c_seqno c = 0"
  shows "send_packet e s c =
           (next_seqno (seqno s), c\<lparr>c_seqno := next_seqno (seqno s)\<rparr>,
            emit [Ev_write (tx_handle s) (frame_of e (c\<lparr>c_seqno := next_seqno (seqno s)\<rparr>))]
              (s\<lparr>seqno := next_seqno (seqno s)\<rparr>))"
  using assms by (auto simp: send_packet_def has_transport_def tx_handle_def Let_def)

lemma send_packet_keeps_transport:
  assumes "has_transport s" "c_seqno c = 0"
  shows "has_transport (snd (snd (send_packet e s c)))"
    and "tx_handle (snd (snd (send_packet e s c))) = tx_handle s"
    and "seqno (snd (snd (send_packet e s c))) = next_seqno (seqno s)"
  using assms(1) by (simp_all add: send_packet_ok [OF assms] emit_def has_transport_def tx_handle_def)

lemma send_packets_Cons:
  assumes "send_packet e s c = (r, c', s')"
  shows "fst (send_packets e s (c # cs)) = (r, c') # fst (send_packets e s' cs)"
    and "snd (send_packets e s (c # cs)) = snd (send_packets e s' cs)"
  using assms by (simp_all split: prod.splits)

declare send_packets.simps(2) [simp del]

lemma send_packets_returned:
  "has_transport s \<Longrightarrow> \<forall>c\<in>set cs. c_seqno c = 0 \<Longrightarrow>
   map fst (fst (send_packets e s cs)) = seqnos_from (seqno s) (length cs)"
proof (induction cs arbitrary: s)
  case Nil
  show ?case by simp
next
  case (Cons c cs)
  have c0: "c_seqno c = 0" using Cons.prems(2) by simp
  obtain r c' s' where sp: "send_packet e s c = (r, c', s')" by (cases "send_packet e s c")
  have r: "r = next_seqno (seqno s)" using sp send_packet_ok [OF Cons.prems(1) c0, of e] by simp
  have t: "has_transport s'" "seqno s' = next_seqno (seqno s)"
    using sp send_packet_keeps_transport [OF Cons.prems(1) c0, of e] by simp_all
  have "map fst (fst (send_packets e s' cs)) = seqnos_from (seqno s') (length cs)"
    using Cons.IH [OF t(1)] Cons.prems(2) by simp
  then show ?case using r t(2) by (simp add: send_packets_Cons [OF sp])
qed

lemma send_packets_commands:
  "has_transport s \<Longrightarrow> \<forall>c\<in>set cs. c_seqno c = 0 \<Longrightarrow>
   map snd (fst (send_packets e s cs)) =
     map2 (\<lambda>c r. c\<lparr>c_seqno := r\<rparr>) cs (map fst (fst (send_packets e s cs)))"
proof (induction cs arbitrary: s)
  case Nil
  show ?case by simp
next
  case (Cons c cs)
  have c0: "c_seqno c = 0" using Cons.prems(2) by simp
  obtain r c' s' where sp: "send_packet e s c = (r, c', s')" by (cases "send_packet e s c")
  have r: "r = next_seqno (seqno s)" "c' = c\<lparr>c_seqno := r\<rparr>"
    using sp send_packet_ok [OF Cons.prems(1) c0, of e] by auto
  have t: "has_transport s'"
    using sp send_packet_keeps_transport [OF Cons.prems(1) c0, of e] by simp
  show ?case using Cons.IH [OF t] Cons.prems(2) r by (simp add: send_packets_Cons [OF sp])
qed

lemma send_packets_trace:
  "has_transport s \<Longrightarrow> \<forall>c\<in>set cs. c_seqno c = 0 \<Longrightarrow>
   trace (snd (send_packets e s cs)) =
     trace s @ map (\<lambda>rc. Ev_write (tx_handle s) (frame_of e (snd rc))) (fst (send_packets e s cs))"
proof (induction cs arbitrary: s)
  case Nil
  show ?case by simp
next
  case (Cons c cs)
  have c0: "c_seqno c = 0" using Cons.prems(2) by simp
  obtain r c' s' where sp: "send_packet e s c = (r, c', s')" by (cases "send_packet e s c")
  have r: "c' = c\<lparr>c_seqno := next_seqno (seqno s)\<rparr>"
      "trace s' = trace s @ [Ev_write (tx_handle s) (frame_of e c')]"
    using sp send_packet_ok [OF Cons.prems(1) c0, of e] by (auto simp: emit_def)
  have t: "has_transport s'" "tx_handle s' = tx_handle s"
    using sp send_packet_keeps_transport [OF Cons.prems(1) c0, of e] by simp_all
  show ?case using Cons.IH [OF t(1)] Cons.prems(2) r(2) t(2) by (simp add: send_packets_Cons [OF sp])
qed

lemma seqnos_from_nz: "0 \<notin> set (seqnos_from n k)"
  by (induction k arbitrary: n) (simp_all add: next_seqno_nz)

lemma seqnos_from_length [simp]: "length (seqnos_from n k) = k"
  by (induction k arbitrary: n) simp_all

lemma seqnos_from_nth: "i < k \<Longrightarrow> seqnos_from n k ! i = (next_seqno ^^ Suc i) n"
proof (induction k arbitrary: n i)
  case 0
  then show ?case by simp
next
  case (Suc k)
  show ?case
  proof (cases i)
    case 0
    then show ?thesis by simp
  next
    case (Suc j)
    then have "j < k" using Suc.prems by simp
    then have "seqnos_from (next_seqno n) k ! j = (next_seqno ^^ Suc j) (next_seqno n)"
      by (rule Suc.IH)
    then show ?thesis using Suc by (simp add: funpow_swap1)
  qed
qed

lemma seqnos_from_distinct:
  assumes "k \<le> 4294967295"
  shows "distinct (seqnos_from n k)"
proof -
  have "seqnos_from n k ! i \<noteq> seqnos_from n k ! j" if "i < j" "j < k" for i j
  proof -
    have "Suc i < Suc j" "Suc j \<le> 4294967295" "0 < Suc i" using that assms by simp_all
    then have "(next_seqno ^^ Suc i) n \<noteq> (next_seqno ^^ Suc j) n" by (rule funpow_distinct)
    then show ?thesis using that by (simp add: seqnos_from_nth)
  qed
  then have "seqnos_from n k ! i \<noteq> seqnos_from n k ! j" if "i < k" "j < k" "i \<noteq> j" for i j
    using that by (metis linorder_neqE_nat)
  then show ?thesis by (simp add: distinct_conv_nth)
qed


lemma funpow_next_nz: "(next_seqno ^^ Suc i) n \<noteq> 0"
  by (simp add: next_seqno_nz)

lemma funpow_period: "(next_seqno ^^ (Suc i + 4294967295)) n = (next_seqno ^^ Suc i) n"
proof -
  have "seq_pos ((next_seqno ^^ (Suc i + 4294967295)) n) = seq_pos ((next_seqno ^^ Suc i) n)"
    unfolding seq_pos_funpow by (simp only: add.assoc [symmetric] mod_add_self2)
  moreover have "(next_seqno ^^ (Suc i + 4294967295)) n \<noteq> 0"
    using funpow_next_nz [of "i + 4294967295" n] by simp
  ultimately show ?thesis using funpow_next_nz [of i n] by (intro seq_pos_inj)
qed

lemma seqnos_from_period:
  assumes "i + 4294967295 < k"
  shows "seqnos_from n k ! (i + 4294967295) = seqnos_from n k ! i"
proof -
  have "i < k" using assms by simp
  then have "seqnos_from n k ! i = (next_seqno ^^ Suc i) n" by (rule seqnos_from_nth)
  moreover have "seqnos_from n k ! (i + 4294967295) = (next_seqno ^^ Suc (i + 4294967295)) n"
    using assms by (rule seqnos_from_nth)
  moreover have "Suc (i + 4294967295) = Suc i + 4294967295" by simp
  ultimately show ?thesis using funpow_period [of i n] by (simp only:)
qed

lemma seqnos_from_wrap:
  assumes "i < k" "(if i = 0 then n else seqnos_from n k ! (i - 1)) = 4294967295"
  shows "seqnos_from n k ! i = 1"
proof -
  have prev: "(next_seqno ^^ i) n = 4294967295"
  proof (cases i)
    case 0
    then show ?thesis using assms(2) by simp
  next
    case (Suc j)
    then have "j < k" using assms(1) by simp
    then have "seqnos_from n k ! j = (next_seqno ^^ Suc j) n" by (rule seqnos_from_nth)
    then show ?thesis using assms(2) Suc by simp
  qed
  have "seqnos_from n k ! i = next_seqno ((next_seqno ^^ i) n)"
    using assms(1) by (simp add: seqnos_from_nth)
  then show ?thesis unfolding prev by (simp add: next_seqno_def)
qed

text \<open>
  Claim C1, amended. In a run of at most 2^32 - 1 consecutive \<^verbatim>\<open>send_packet\<close> calls on
  commands whose seqno is 0, made on an endpoint with an active outbound path (so every call
  succeeds), the returned sequence numbers are pairwise distinct and none is 0; a call
  made when the counter stands at 2^32 - 1 returns 1; every command leaves its call with its
  seqno set to the value returned, and the frames written, in call order, serialise the
  commands with that seqno.
\<close>

theorem send_packet_seqnos_distinct:
  assumes "has_transport s" and "\<forall>c\<in>set cs. c_seqno c = 0" and "length cs \<le> 4294967295"
  shows "distinct (map fst (fst (send_packets e s cs)))
       \<and> 0 \<notin> set (map fst (fst (send_packets e s cs)))
       \<and> (\<forall>i<length cs.
             (if i = 0 then seqno s else map fst (fst (send_packets e s cs)) ! (i - 1)) = 4294967295
             \<longrightarrow> map fst (fst (send_packets e s cs)) ! i = 1)
       \<and> map snd (fst (send_packets e s cs))
           = map2 (\<lambda>c r. c\<lparr>c_seqno := r\<rparr>) cs (map fst (fst (send_packets e s cs)))
       \<and> trace (snd (send_packets e s cs))
           = trace s @ map (\<lambda>rc. Ev_write (tx_handle s) (frame_of e (snd rc)))
                          (fst (send_packets e s cs))"
proof -
  have r: "map fst (fst (send_packets e s cs)) = seqnos_from (seqno s) (length cs)"
    using assms(1,2) by (rule send_packets_returned)
  have "distinct (seqnos_from (seqno s) (length cs))"
    using assms(3) by (rule seqnos_from_distinct)
  moreover have "0 \<notin> set (seqnos_from (seqno s) (length cs))" by (rule seqnos_from_nz)
  moreover have "\<forall>i<length cs.
      (if i = 0 then seqno s else seqnos_from (seqno s) (length cs) ! (i - 1)) = 4294967295
      \<longrightarrow> seqnos_from (seqno s) (length cs) ! i = 1"
    using seqnos_from_wrap by blast
  ultimately show ?thesis
    unfolding r using send_packets_commands [OF assms(1,2), of e] send_packets_trace [OF assms(1,2), of e]
    unfolding r by blast
qed

text \<open>
  Three sends on a TCP endpoint whose counter stands at 2^32 - 2: the values 2^32 - 1, 1
  and 2 are returned.
\<close>

theorem send_packet_seqnos_distinct_witness:
  "has_transport (tcp_endpoint\<lparr>seqno := 4294967294\<rparr>)
   \<and> c_seqno ping_command = 0
   \<and> length [ping_command, ping_command, ping_command] \<le> 4294967295
   \<and> map fst (fst (send_packets sample_env (tcp_endpoint\<lparr>seqno := 4294967294\<rparr>)
                        [ping_command, ping_command, ping_command])) = [4294967295, 1, 2]
   \<and> distinct (map fst (fst (send_packets sample_env (tcp_endpoint\<lparr>seqno := 4294967294\<rparr>)
                        [ping_command, ping_command, ping_command])))"
proof -
  let ?s = "tcp_endpoint\<lparr>seqno := 4294967294\<rparr>"
  let ?cs = "[ping_command, ping_command, ping_command]"
  have h1: "has_transport ?s"
    by (simp add: has_transport_def tcp_endpoint_def attach_tcp_socket_def
        kis_external_interface_new_def start_tcp_read_def emit_def Let_def)
  have h2: "\<forall>c\<in>set ?cs. c_seqno c = 0" by (simp add: ping_command_def)
  have h3: "length ?cs \<le> 4294967295" by simp
  have v: "map fst (fst (send_packets sample_env ?s ?cs)) = [4294967295, 1, 2]"
    by (simp add: send_packets_returned [OF h1 h2] next_seqno_def)
  from send_packet_seqnos_distinct [OF h1 h2 h3, of sample_env]
  have "distinct (map fst (fst (send_packets sample_env ?s ?cs)))" by (rule conjunct1)
  moreover have "c_seqno ping_command = 0" by (simp add: ping_command_def)
  ultimately show ?thesis using h1 h3 v by (intro conjI)
qed

text \<open>
  Without the bound the values repeat: in a run of 2^32 successful sends from a fresh
  counter, the first and the last call both return 1.
\<close>

theorem send_packet_seqnos_repeat:
  "0 \<notin> set (map fst (fst (send_packets sample_env tcp_endpoint (replicate 4294967296 ping_command))))
   \<and> \<not> distinct (map fst (fst (send_packets sample_env tcp_endpoint
                                   (replicate 4294967296 ping_command))))"
proof -
  let ?cs = "replicate 4294967296 ping_command"
  have h1: "has_transport tcp_endpoint"
    by (simp add: has_transport_def tcp_endpoint_def attach_tcp_socket_def
        kis_external_interface_new_def start_tcp_read_def emit_def Let_def)
  have h2: "\<forall>c\<in>set ?cs. c_seqno c = 0" by (simp add: ping_command_def)
  have r: "map fst (fst (send_packets sample_env tcp_endpoint ?cs))
             = seqnos_from (seqno tcp_endpoint) 4294967296"
    using send_packets_returned [OF h1 h2, of sample_env] by simp
  have "seqnos_from (seqno tcp_endpoint) 4294967296 ! (0 + 4294967295)
          = seqnos_from (seqno tcp_endpoint) 4294967296 ! 0"
    by (rule seqnos_from_period) simp
  then have same: "seqnos_from (seqno tcp_endpoint) 4294967296 ! 4294967295
          = seqnos_from (seqno tcp_endpoint) 4294967296 ! 0" by simp
  have "\<not> distinct (seqnos_from (seqno tcp_endpoint) 4294967296)"
  proof
    assume "distinct (seqnos_from (seqno tcp_endpoint) 4294967296)"
    then have "(4294967295::nat) = 0"
      using same by (simp add: nth_eq_iff_index_eq)
    then show False by simp
  qed
  then show ?thesis unfolding r using seqnos_from_nz by simp
qed

section \<open>Teardown\<close>

lemmas lifecycle_defs =
  close_external_def ipc_hard_kill_def ipc_soft_kill_def close_ipc_in_def close_ipc_out_def
  close_tcpsocket_def signal_child_def emit_def msg_def

lemma ipc_hard_kill_state:
  "ipc_hard_kill s =
     s\<lparr>stopped := True, cancelled := True, ipc_in := None, ipc_out := None,
       trace := trace s
         @ (if ipc_in s \<noteq> None then [Ev_cancel Ipc_in, Ev_close Ipc_in] else [])
         @ (if ipc_out s \<noteq> None then [Ev_cancel Ipc_out, Ev_close Ipc_out] else [])
         @ (if ipc_pid s > 0 then [Ev_remove_ipc (ipc_pid s), Ev_kill (ipc_pid s) SIGKILL] else [])\<rparr>"
  by (cases s) (simp add: lifecycle_defs Let_def)

lemma ipc_soft_kill_state:
  "ipc_soft_kill s =
     s\<lparr>stopped := True, cancelled := True, ipc_in := None, ipc_out := None,
       trace := trace s
         @ (if ipc_in s \<noteq> None then [Ev_cancel Ipc_in, Ev_close Ipc_in] else [])
         @ (if ipc_out s \<noteq> None then [Ev_cancel Ipc_out, Ev_close Ipc_out] else [])
         @ (if ipc_pid s > 0 then [Ev_remove_ipc (ipc_pid s), Ev_kill (ipc_pid s) SIGTERM] else [])\<rparr>"
  by (cases s) (simp add: lifecycle_defs Let_def)

lemma close_external_state:
  "close_external s =
     s\<lparr>stopped := True, cancelled := True, ipc_in := None, ipc_out := None, tcpsocket := None,
       write_cb := None, closure_cb := None, trace := trace s @ teardown_events s\<rparr>"
  unfolding close_external_def ipc_hard_kill_state
  by (cases s) (simp add: close_tcpsocket_def emit_def teardown_events_def Let_def)


lemma close_external_events: "events_since s (close_external s) = teardown_events s"
  by (simp add: events_since_def close_external_state)

lemma teardown_listener:
  "ebid \<in> set (eventbus_callback_map s) \<Longrightarrow> Ev_remove_listener (snd ebid) \<in> set (teardown_events s)"
  by (simp add: teardown_events_def)

lemma teardown_session:
  assumes "sess \<in> set (http_proxy_session_map s)"
  shows "\<exists>pre post. teardown_events s =
           pre @ [Ev_stream_cancel (connection (snd sess)), Ev_gate_unlock (locker (snd sess)) None] @ post"
proof -
  let ?f = "\<lambda>x. [Ev_stream_cancel (connection (snd x)), Ev_gate_unlock (locker (snd x)) None]"
  obtain ys zs where m: "http_proxy_session_map s = ys @ sess # zs"
    using assms by (auto dest: split_list)
  obtain rest where r: "teardown_events s =
      map (\<lambda>ebid. Ev_remove_listener (snd ebid)) (eventbus_callback_map s)
      @ concat (map ?f (http_proxy_session_map s)) @ rest"
    by (simp add: teardown_events_def)
  have "teardown_events s =
      (map (\<lambda>ebid. Ev_remove_listener (snd ebid)) (eventbus_callback_map s) @ concat (map ?f ys))
      @ ?f sess @ (concat (map ?f zs) @ rest)"
    unfolding r m by simp
  then show ?thesis by blast
qed

lemma teardown_timer: "Ev_remove_timer (ping_timer_id s) \<in> set (teardown_events s)"
  by (simp add: teardown_events_def)

lemma teardown_kill:
  assumes "0 < ipc_pid s"
  shows "\<exists>pre post. teardown_events s =
           pre @ [Ev_remove_ipc (ipc_pid s), Ev_kill (ipc_pid s) SIGKILL] @ post"
proof -
  have "teardown_events s =
      (map (\<lambda>ebid. Ev_remove_listener (snd ebid)) (eventbus_callback_map s)
       @ concat (map (\<lambda>x. [Ev_stream_cancel (connection (snd x)), Ev_gate_unlock (locker (snd x)) None])
                   (http_proxy_session_map s))
       @ [Ev_remove_timer (ping_timer_id s)]
       @ (if ipc_in s \<noteq> None then [Ev_cancel Ipc_in, Ev_close Ipc_in] else [])
       @ (if ipc_out s \<noteq> None then [Ev_cancel Ipc_out, Ev_close Ipc_out] else []))
      @ [Ev_remove_ipc (ipc_pid s), Ev_kill (ipc_pid s) SIGKILL]
      @ (if tcpsocket s \<noteq> None then [Ev_cancel Tcpsocket, Ev_close Tcpsocket] else [])"
    using assms by (simp add: teardown_events_def)
  then show ?thesis by blast
qed

lemma teardown_no_kill:
  "\<not> 0 < ipc_pid s \<Longrightarrow> Ev_kill p g \<notin> set (teardown_events s) \<and> Ev_remove_ipc p \<notin> set (teardown_events s)"
  by (auto simp: teardown_events_def)

lemma close_external_twice:
  "close_external (close_external s) =
     (close_external s)\<lparr>trace := trace (close_external (close_external s))\<rparr>"
  by (cases s) (simp add: close_external_state)

lemma close_external_twice_events:
  "Ev_cancel h \<notin> set (events_since (close_external s) (close_external (close_external s)))
   \<and> Ev_close h \<notin> set (events_since (close_external s) (close_external (close_external s)))"
  unfolding close_external_events
  by (auto simp: teardown_events_def close_external_state)

text \<open>
  Claim C2, amended. After \<^verbatim>\<open>close_external\<close> returns: \<open>stopped\<close> and
  \<open>cancelled\<close> are true; every listener id of \<open>eventbus_callback_map\<close> has been passed
  to \<^verbatim>\<open>remove_listener\<close>; every parked HTTP session has had its response stream
  cancelled and its gate then released by a plain \<^verbatim>\<open>unlock()\<close>, and no gate is released
  with a value; the ping timer has been removed; the hard kill has run: both pipes are
  closed, a recorded child (pid > 0) has been deregistered and sent SIGKILL, and with no
  recorded child nothing is deregistered and no signal is sent (on an endpoint already
  flagged, with no recorded child and no open pipe, the hard kill is the identity); the
  TCP socket is closed; \<open>write_cb\<close> and \<open>closure_cb\<close> are cleared. A second call
  leaves the members as the first left them and cancels or closes no descriptor again,
  but it repeats these calls, and only these: \<^verbatim>\<open>remove_listener\<close> for every listener,
  cancel and unlock for every session still in the table, \<^verbatim>\<open>remove_timer\<close>, and,
  for a recorded child, \<^verbatim>\<open>remove_ipc\<close> and SIGKILL (the pid is never reset).
\<close>

theorem close_external_teardown:
  "stopped (close_external s) \<and> cancelled (close_external s)
   \<and> (\<forall>ebid\<in>set (eventbus_callback_map s).
         Ev_remove_listener (snd ebid) \<in> set (events_since s (close_external s)))
   \<and> (\<forall>sess\<in>set (http_proxy_session_map s).
         \<exists>pre post. events_since s (close_external s) =
           pre @ [Ev_stream_cancel (connection (snd sess)), Ev_gate_unlock (locker (snd sess)) None] @ post)
   \<and> Ev_remove_timer (ping_timer_id s) \<in> set (events_since s (close_external s))
   \<and> ipc_in (close_external s) = None \<and> ipc_out (close_external s) = None
   \<and> (0 < ipc_pid s \<longrightarrow>
         (\<exists>pre post. events_since s (close_external s) =
            pre @ [Ev_remove_ipc (ipc_pid s), Ev_kill (ipc_pid s) SIGKILL] @ post))
   \<and> (\<not> 0 < ipc_pid s \<longrightarrow>
         (\<forall>p g. Ev_kill p g \<notin> set (events_since s (close_external s))
                \<and> Ev_remove_ipc p \<notin> set (events_since s (close_external s))))
   \<and> tcpsocket (close_external s) = None
   \<and> write_cb (close_external s) = None \<and> closure_cb (close_external s) = None
   \<and> close_external (close_external s) =
         (close_external s)\<lparr>trace := trace (close_external (close_external s))\<rparr>
   \<and> (\<forall>h. Ev_cancel h \<notin> set (events_since (close_external s) (close_external (close_external s)))
           \<and> Ev_close h \<notin> set (events_since (close_external s) (close_external (close_external s))))
   \<and> (\<forall>k. stopped k \<and> cancelled k \<and> \<not> 0 < ipc_pid k \<and> ipc_in k = None \<and> ipc_out k = None
           \<longrightarrow> ipc_hard_kill k = k)
   \<and> (\<forall>g v. Ev_gate_unlock g (Some v) \<notin> set (events_since s (close_external s)))
   \<and> events_since (close_external s) (close_external (close_external s)) =
         map (\<lambda>ebid. Ev_remove_listener (snd ebid)) (eventbus_callback_map s)
         @ concat (map (\<lambda>x. [Ev_stream_cancel (connection (snd x)),
                                Ev_gate_unlock (locker (snd x)) None])
                     (http_proxy_session_map s))
         @ [Ev_remove_timer (ping_timer_id s)]
         @ (if 0 < ipc_pid s then [Ev_remove_ipc (ipc_pid s), Ev_kill (ipc_pid s) SIGKILL] else [])"
proof -
  have fields: "stopped (close_external s)" "cancelled (close_external s)"
    "ipc_in (close_external s) = None" "ipc_out (close_external s) = None"
    "tcpsocket (close_external s) = None" "write_cb (close_external s) = None"
    "closure_cb (close_external s) = None"
    by (simp_all add: close_external_state)
  have noop: "ipc_hard_kill k = k"
    if "stopped k \<and> cancelled k \<and> \<not> 0 < ipc_pid k \<and> ipc_in k = None \<and> ipc_out k = None" for k
    using that by (cases k) (simp add: ipc_hard_kill_state)
  have plain: "Ev_gate_unlock g (Some v) \<notin> set (teardown_events s)" for g v
    by (auto simp: teardown_events_def)
  have again: "teardown_events (close_external s) =
         map (\<lambda>ebid. Ev_remove_listener (snd ebid)) (eventbus_callback_map s)
         @ concat (map (\<lambda>x. [Ev_stream_cancel (connection (snd x)),
                                Ev_gate_unlock (locker (snd x)) None])
                     (http_proxy_session_map s))
         @ [Ev_remove_timer (ping_timer_id s)]
         @ (if 0 < ipc_pid s then [Ev_remove_ipc (ipc_pid s), Ev_kill (ipc_pid s) SIGKILL] else [])"
    by (simp add: teardown_events_def close_external_state)
  show ?thesis
    unfolding close_external_events
    using fields teardown_listener [of _ s] teardown_session [of _ s] teardown_timer [of s]
      teardown_kill [of s] teardown_no_kill [of s] close_external_twice [of s]
      close_external_twice_events [of _ s, unfolded close_external_events] noop plain again
    by (intro conjI ballI impI allI) blast+
qed

lemma tcp_endpoint_eq:
  "tcp_endpoint =
     (kis_external_interface_new 0)
       \<lparr>stopped := False, tcpsocket := Some 7, trace := [Ev_async_read Tcpsocket]\<rparr>"
  by (simp add: tcp_endpoint_def attach_tcp_socket_def kis_external_interface_new_def
      start_tcp_read_def emit_def Let_def)

lemmas sample_endpoints =
  tcp_endpoint_eq busy_endpoint_def ipc_endpoint_def kis_external_interface_new_def

text \<open>
  Teardown of an endpoint with two listeners, two parked sessions and an open TCP socket
  (no child), and of an endpoint with a child.
\<close>

theorem close_external_teardown_witness:
  "events_since busy_endpoint (close_external busy_endpoint) =
     [Ev_remove_listener 11, Ev_remove_listener 12,
      Ev_stream_cancel 100, Ev_gate_unlock 200 None, Ev_stream_cancel 101, Ev_gate_unlock 201 None,
      Ev_remove_timer 5, Ev_cancel Tcpsocket, Ev_close Tcpsocket]
   \<and> Ev_remove_listener 12 \<in> set (events_since busy_endpoint (close_external busy_endpoint))
   \<and> (\<exists>pre post. events_since busy_endpoint (close_external busy_endpoint) =
          pre @ [Ev_stream_cancel 101, Ev_gate_unlock 201 None] @ post)
   \<and> \<not> 0 < ipc_pid busy_endpoint
   \<and> Ev_kill 4242 SIGKILL \<notin> set (events_since busy_endpoint (close_external busy_endpoint))
   \<and> 0 < ipc_pid ipc_endpoint
   \<and> (\<exists>pre post. events_since ipc_endpoint (close_external ipc_endpoint) =
          pre @ [Ev_remove_ipc 4242, Ev_kill 4242 SIGKILL] @ post)"
proof -
  have ev: "events_since busy_endpoint (close_external busy_endpoint) =
     [Ev_remove_listener 11, Ev_remove_listener 12,
      Ev_stream_cancel 100, Ev_gate_unlock 200 None, Ev_stream_cancel 101, Ev_gate_unlock 201 None,
      Ev_remove_timer 5, Ev_cancel Tcpsocket, Ev_close Tcpsocket]"
    by (simp add: close_external_events teardown_events_def sample_endpoints)
  have l: "(''TIMESTAMP'', 12) \<in> set (eventbus_callback_map busy_endpoint)"
    by (simp add: sample_endpoints)
  have m: "(1, \<lparr>connection = 101, locker = 201\<rparr>) \<in> set (http_proxy_session_map busy_endpoint)"
    by (simp add: sample_endpoints)
  have p: "\<not> 0 < ipc_pid busy_endpoint" by (simp add: sample_endpoints)
  have q: "0 < ipc_pid ipc_endpoint" "ipc_pid ipc_endpoint = 4242" by (simp_all add: sample_endpoints)
  note t = close_external_teardown [of busy_endpoint]
  note u = close_external_teardown [of ipc_endpoint]
  note t3 = t [THEN conjunct2, THEN conjunct2, THEN conjunct1]
  note t4 = t [THEN conjunct2, THEN conjunct2, THEN conjunct2, THEN conjunct1]
  note t9 = t [THEN conjunct2, THEN conjunct2, THEN conjunct2, THEN conjunct2, THEN conjunct2,
    THEN conjunct2, THEN conjunct2, THEN conjunct2, THEN conjunct1]
  note u8 = u [THEN conjunct2, THEN conjunct2, THEN conjunct2, THEN conjunct2, THEN conjunct2,
    THEN conjunct2, THEN conjunct2, THEN conjunct1]
  have a: "Ev_remove_listener 12 \<in> set (events_since busy_endpoint (close_external busy_endpoint))"
    using bspec [OF t3 l] by simp
  have b: "\<exists>pre post. events_since busy_endpoint (close_external busy_endpoint) =
          pre @ [Ev_stream_cancel 101, Ev_gate_unlock 201 None] @ post"
    using bspec [OF t4 m] by simp
  have c: "Ev_kill 4242 SIGKILL \<notin> set (events_since busy_endpoint (close_external busy_endpoint))"
    using mp [OF t9 p] by (rule allE [where x = 4242]) simp
  have d: "\<exists>pre post. events_since ipc_endpoint (close_external ipc_endpoint) =
          pre @ [Ev_remove_ipc 4242, Ev_kill 4242 SIGKILL] @ post"
    using mp [OF u8 q(1)] unfolding q(2) .
  show ?thesis using ev a b p c q(1) d by (intro conjI)
qed

text \<open>
  The gate release of the teardown carries no failure value: it is the valueless
  \<^verbatim>\<open>unlock()\<close>, where the closure callback of a session releases with -1. And a second
  \<^verbatim>\<open>close_external\<close> repeats calls: on an endpoint with parked sessions it cancels and
  unlocks them again, on an endpoint with a child it deregisters and kills the child's
  pid again.
\<close>

theorem close_external_unlock_and_rekill:
  "events_since busy_endpoint (close_external busy_endpoint) =
     [Ev_remove_listener 11, Ev_remove_listener 12,
      Ev_stream_cancel 100, Ev_gate_unlock 200 None, Ev_stream_cancel 101, Ev_gate_unlock 201 None,
      Ev_remove_timer 5, Ev_cancel Tcpsocket, Ev_close Tcpsocket]
   \<and> events_since busy_endpoint (session_closure_cb \<lparr>connection = 100, locker = 200\<rparr> busy_endpoint)
       = [Ev_gate_unlock 200 (Some (- 1))]
   \<and> events_since (close_external busy_endpoint) (close_external (close_external busy_endpoint)) =
     [Ev_remove_listener 11, Ev_remove_listener 12,
      Ev_stream_cancel 100, Ev_gate_unlock 200 None, Ev_stream_cancel 101, Ev_gate_unlock 201 None,
      Ev_remove_timer 5]
   \<and> events_since ipc_endpoint (close_external ipc_endpoint) =
     [Ev_remove_timer (- 1), Ev_cancel Ipc_in, Ev_close Ipc_in, Ev_cancel Ipc_out, Ev_close Ipc_out,
      Ev_remove_ipc 4242, Ev_kill 4242 SIGKILL]
   \<and> events_since (close_external ipc_endpoint) (close_external (close_external ipc_endpoint)) =
     [Ev_remove_timer (- 1), Ev_remove_ipc 4242, Ev_kill 4242 SIGKILL]"
proof -
  have a: "events_since busy_endpoint (close_external busy_endpoint) =
     [Ev_remove_listener 11, Ev_remove_listener 12,
      Ev_stream_cancel 100, Ev_gate_unlock 200 None, Ev_stream_cancel 101, Ev_gate_unlock 201 None,
      Ev_remove_timer 5, Ev_cancel Tcpsocket, Ev_close Tcpsocket]"
    by (simp add: close_external_events teardown_events_def sample_endpoints)
  have b: "events_since busy_endpoint (session_closure_cb \<lparr>connection = 100, locker = 200\<rparr> busy_endpoint)
       = [Ev_gate_unlock 200 (Some (- 1))]"
    by (simp add: events_since_def session_closure_cb_def emit_def)
  have c: "events_since (close_external busy_endpoint) (close_external (close_external busy_endpoint)) =
     [Ev_remove_listener 11, Ev_remove_listener 12,
      Ev_stream_cancel 100, Ev_gate_unlock 200 None, Ev_stream_cancel 101, Ev_gate_unlock 201 None,
      Ev_remove_timer 5]"
    unfolding close_external_events
    by (simp add: teardown_events_def close_external_state) (simp add: sample_endpoints)
  have d: "events_since ipc_endpoint (close_external ipc_endpoint) =
     [Ev_remove_timer (- 1), Ev_cancel Ipc_in, Ev_close Ipc_in, Ev_cancel Ipc_out, Ev_close Ipc_out,
      Ev_remove_ipc 4242, Ev_kill 4242 SIGKILL]"
    by (simp add: close_external_events teardown_events_def sample_endpoints)
  have e: "events_since (close_external ipc_endpoint) (close_external (close_external ipc_endpoint)) =
     [Ev_remove_timer (- 1), Ev_remove_ipc 4242, Ev_kill 4242 SIGKILL]"
    unfolding close_external_events
    by (simp add: teardown_events_def close_external_state) (simp add: sample_endpoints)
  show ?thesis using a b c d e by (intro conjI)
qed

text \<open>
  Claim C3, amended. On an endpoint whose recorded child pid is positive,
  \<^verbatim>\<open>attach_tcp_socket\<close> returns false, logs one error, starts no read, and leaves the
  \<open>cancelled\<close> flag, the transport handles and every other member as they were; but it
  sets \<open>stopped\<close> and empties the ingress buffer, both done before the pid is tested.
\<close>

theorem attach_tcp_socket_refused:
  assumes "0 < ipc_pid s"
  shows "attach_tcp_socket s socket =
           (False,
            s\<lparr>stopped := True, in_buf := [],
              trace := trace s @
                [Ev_msg (''Tried to attach a TCP socket to an external endpoint that already has '' @
                         ''an IPC instance running.'') MSGFLAG_ERROR]\<rparr>)"
  using assms by (simp add: attach_tcp_socket_def msg_def Let_def)

text \<open>
  The refused attach on an endpoint with a running child.
\<close>

theorem attach_tcp_socket_refused_witness:
  "0 < ipc_pid ipc_endpoint
   \<and> fst (attach_tcp_socket ipc_endpoint (Some 9)) = False
   \<and> cancelled (snd (attach_tcp_socket ipc_endpoint (Some 9))) = cancelled ipc_endpoint
   \<and> tcpsocket (snd (attach_tcp_socket ipc_endpoint (Some 9))) = None
   \<and> ipc_in (snd (attach_tcp_socket ipc_endpoint (Some 9))) = Some 5
   \<and> ipc_out (snd (attach_tcp_socket ipc_endpoint (Some 9))) = Some 4"
proof -
  have h: "0 < ipc_pid ipc_endpoint" by (simp add: sample_endpoints)
  show ?thesis
    unfolding attach_tcp_socket_refused [OF h] using h by (simp add: sample_endpoints)
qed

text \<open>
  The state does change: a running endpoint with a child and buffered bytes is stopped
  and loses its buffer when the attach is refused.
\<close>

theorem attach_tcp_socket_stops_endpoint:
  "0 < ipc_pid ipc_endpoint
   \<and> fst (attach_tcp_socket ipc_endpoint (Some 9)) = False
   \<and> stopped ipc_endpoint = False
   \<and> stopped (snd (attach_tcp_socket ipc_endpoint (Some 9))) = True
   \<and> in_buf ipc_endpoint = ''partial frame''
   \<and> in_buf (snd (attach_tcp_socket ipc_endpoint (Some 9))) = []"
  by (simp add: attach_tcp_socket_def msg_def Let_def sample_endpoints)

lemma close_external_stopped: "stopped (close_external s)"
  by (simp add: close_external_state)

text \<open>
  Claim C6. \<^verbatim>\<open>trigger_error\<close> on a stopped endpoint changes nothing (no hook, no
  teardown); on an endpoint that is not stopped it is the \<^verbatim>\<open>handle_error\<close> hook
  followed by \<^verbatim>\<open>close_external\<close>. Either way \<open>stopped\<close> holds afterwards, so a
  second \<^verbatim>\<open>trigger_error\<close> does nothing.
\<close>

theorem trigger_error_stopped_guard:
  "(stopped s \<longrightarrow> trigger_error e s m = s)
   \<and> (\<not> stopped s \<longrightarrow> trigger_error e s m = close_external (handle_error e m s))
   \<and> stopped (trigger_error e s m)
   \<and> trigger_error e (trigger_error e s m) m' = trigger_error e s m"
proof -
  have st: "stopped (trigger_error e s m)"
    by (simp add: trigger_error_def close_external_stopped)
  then have "trigger_error e (trigger_error e s m) m' = trigger_error e s m"
    by (simp add: trigger_error_def [of e "trigger_error e s m"])
  with st show ?thesis by (simp add: trigger_error_def)
qed

text \<open>
  An error on a running TCP endpoint, a second one after it, and one on an endpoint that
  was never started.
\<close>

theorem trigger_error_stopped_guard_witness:
  "\<not> stopped tcp_endpoint
   \<and> trigger_error sample_env tcp_endpoint ''boom''
       = close_external (handle_error sample_env ''boom'' tcp_endpoint)
   \<and> trace (trigger_error sample_env tcp_endpoint ''boom'')
       = [Ev_async_read Tcpsocket, Ev_handle_error ''boom'', Ev_remove_timer (- 1),
          Ev_cancel Tcpsocket, Ev_close Tcpsocket]
   \<and> stopped (trigger_error sample_env tcp_endpoint ''boom'')
   \<and> trigger_error sample_env (trigger_error sample_env tcp_endpoint ''boom'') ''again''
       = trigger_error sample_env tcp_endpoint ''boom''
   \<and> stopped (kis_external_interface_new 0)
   \<and> trigger_error sample_env (kis_external_interface_new 0) ''boom'' = kis_external_interface_new 0"
proof -
  have h: "\<not> stopped tcp_endpoint" by (simp add: sample_endpoints)
  have g: "stopped (kis_external_interface_new 0)" by (simp add: sample_endpoints)
  note t = trigger_error_stopped_guard [of tcp_endpoint sample_env "''boom''" "''again''"]
  note u = trigger_error_stopped_guard [of "kis_external_interface_new 0" sample_env "''boom''" "''again''"]
  have eq: "trigger_error sample_env tcp_endpoint ''boom''
       = close_external (handle_error sample_env ''boom'' tcp_endpoint)"
    using t h by blast
  have tr: "trace (trigger_error sample_env tcp_endpoint ''boom'')
       = [Ev_async_read Tcpsocket, Ev_handle_error ''boom'', Ev_remove_timer (- 1),
          Ev_cancel Tcpsocket, Ev_close Tcpsocket]"
    unfolding eq
    by (simp add: close_external_state teardown_events_def sample_env_def emit_def sample_endpoints)
  have "trigger_error sample_env (kis_external_interface_new 0) ''boom'' = kis_external_interface_new 0"
    using u g by blast
  then show ?thesis using h g eq tr t by (intro conjI) blast+
qed

section \<open>Kill operations\<close>

lemma kill_order:
  "ipc_soft_kill s =
     signal_child SIGTERM (close_ipc_out (close_ipc_in (s\<lparr>stopped := True, cancelled := True\<rparr>)))"
  "ipc_hard_kill s =
     signal_child SIGKILL (close_ipc_out (close_ipc_in (s\<lparr>stopped := True, cancelled := True\<rparr>)))"
  by (simp_all add: ipc_soft_kill_def ipc_hard_kill_def Let_def)

lemma kill_events:
  "events_since s (ipc_soft_kill s) =
     (if ipc_in s \<noteq> None then [Ev_cancel Ipc_in, Ev_close Ipc_in] else [])
     @ (if ipc_out s \<noteq> None then [Ev_cancel Ipc_out, Ev_close Ipc_out] else [])
     @ (if ipc_pid s > 0 then [Ev_remove_ipc (ipc_pid s), Ev_kill (ipc_pid s) SIGTERM] else [])"
  "events_since s (ipc_hard_kill s) =
     (if ipc_in s \<noteq> None then [Ev_cancel Ipc_in, Ev_close Ipc_in] else [])
     @ (if ipc_out s \<noteq> None then [Ev_cancel Ipc_out, Ev_close Ipc_out] else [])
     @ (if ipc_pid s > 0 then [Ev_remove_ipc (ipc_pid s), Ev_kill (ipc_pid s) SIGKILL] else [])"
  by (simp_all add: events_since_def ipc_soft_kill_state ipc_hard_kill_state)

lemma send_packet_no_path:
  assumes "stopped k" "write_cb k = None" "ipc_out k = None" "tcpsocket k = None"
  shows "fst (send_packet e k c) = 0"
    and "events_since k (snd (snd (send_packet e k c))) =
           [Ev_msg ''Kismet external interface got an error writing packet, no connections''
              MSGFLAG_ERROR]"
  using assms
  by (simp_all add: send_packet_def trigger_error_def msg_def events_since_def Let_def)

text \<open>
  Claim C10, amended. \<^verbatim>\<open>ipc_soft_kill\<close> and \<^verbatim>\<open>ipc_hard_kill\<close> set \<open>stopped\<close> and
  \<open>cancelled\<close> first and whatever the recorded pid, then close the pipes, then signal
  a recorded child. Afterwards both pipes are closed and no read can be started
  (\<^verbatim>\<open>start_ipc_read\<close> and \<^verbatim>\<open>start_tcp_read\<close> return at once); with no recorded
  child no signal is sent. On an endpoint whose only outbound path was the pipe pair,
  \<^verbatim>\<open>send_packet\<close> writes nothing any more and returns 0.
\<close>

theorem ipc_kill_stops_endpoint:
  "stopped (ipc_soft_kill s) \<and> cancelled (ipc_soft_kill s)
   \<and> stopped (ipc_hard_kill s) \<and> cancelled (ipc_hard_kill s)
   \<and> ipc_soft_kill s =
       signal_child SIGTERM (close_ipc_out (close_ipc_in (s\<lparr>stopped := True, cancelled := True\<rparr>)))
   \<and> ipc_hard_kill s =
       signal_child SIGKILL (close_ipc_out (close_ipc_in (s\<lparr>stopped := True, cancelled := True\<rparr>)))
   \<and> ipc_in (ipc_soft_kill s) = None \<and> ipc_out (ipc_soft_kill s) = None
   \<and> ipc_in (ipc_hard_kill s) = None \<and> ipc_out (ipc_hard_kill s) = None
   \<and> start_ipc_read (ipc_soft_kill s) = ipc_soft_kill s
   \<and> start_tcp_read (ipc_soft_kill s) = ipc_soft_kill s
   \<and> start_ipc_read (ipc_hard_kill s) = ipc_hard_kill s
   \<and> start_tcp_read (ipc_hard_kill s) = ipc_hard_kill s
   \<and> (\<not> 0 < ipc_pid s \<longrightarrow>
         (\<forall>p g. Ev_kill p g \<notin> set (events_since s (ipc_soft_kill s))
                \<and> Ev_kill p g \<notin> set (events_since s (ipc_hard_kill s))))
   \<and> (write_cb s = None \<and> tcpsocket s = None \<longrightarrow>
         (\<forall>c. fst (send_packet e (ipc_soft_kill s) c) = 0
              \<and> fst (send_packet e (ipc_hard_kill s) c) = 0
              \<and> (\<forall>h f. Ev_write h f \<notin> set (events_since (ipc_soft_kill s)
                                              (snd (snd (send_packet e (ipc_soft_kill s) c))))
                      \<and> Ev_write h f \<notin> set (events_since (ipc_hard_kill s)
                                              (snd (snd (send_packet e (ipc_hard_kill s) c)))))))"
proof -
  have fs: "stopped (ipc_soft_kill s)" "cancelled (ipc_soft_kill s)"
    "ipc_in (ipc_soft_kill s) = None" "ipc_out (ipc_soft_kill s) = None"
    "write_cb (ipc_soft_kill s) = write_cb s" "tcpsocket (ipc_soft_kill s) = tcpsocket s"
    by (simp_all add: ipc_soft_kill_state)
  have fh: "stopped (ipc_hard_kill s)" "cancelled (ipc_hard_kill s)"
    "ipc_in (ipc_hard_kill s) = None" "ipc_out (ipc_hard_kill s) = None"
    "write_cb (ipc_hard_kill s) = write_cb s" "tcpsocket (ipc_hard_kill s) = tcpsocket s"
    by (simp_all add: ipc_hard_kill_state)
  have reads: "start_ipc_read (ipc_soft_kill s) = ipc_soft_kill s"
    "start_tcp_read (ipc_soft_kill s) = ipc_soft_kill s"
    "start_ipc_read (ipc_hard_kill s) = ipc_hard_kill s"
    "start_tcp_read (ipc_hard_kill s) = ipc_hard_kill s"
    using fs(1) fh(1) by (simp_all add: start_ipc_read_def start_tcp_read_def)
  have nokill: "\<not> 0 < ipc_pid s \<longrightarrow>
         (\<forall>p g. Ev_kill p g \<notin> set (events_since s (ipc_soft_kill s))
                \<and> Ev_kill p g \<notin> set (events_since s (ipc_hard_kill s)))"
    by (simp add: kill_events)
  have nowrite: "write_cb s = None \<and> tcpsocket s = None \<longrightarrow>
         (\<forall>c. fst (send_packet e (ipc_soft_kill s) c) = 0
              \<and> fst (send_packet e (ipc_hard_kill s) c) = 0
              \<and> (\<forall>h f. Ev_write h f \<notin> set (events_since (ipc_soft_kill s)
                                              (snd (snd (send_packet e (ipc_soft_kill s) c))))
                      \<and> Ev_write h f \<notin> set (events_since (ipc_hard_kill s)
                                              (snd (snd (send_packet e (ipc_hard_kill s) c))))))"
  proof (intro impI allI)
    fix c
    assume a: "write_cb s = None \<and> tcpsocket s = None"
    have ks: "write_cb (ipc_soft_kill s) = None" "tcpsocket (ipc_soft_kill s) = None"
      using a fs(5,6) by simp_all
    have kh: "write_cb (ipc_hard_kill s) = None" "tcpsocket (ipc_hard_kill s) = None"
      using a fh(5,6) by simp_all
    show "fst (send_packet e (ipc_soft_kill s) c) = 0
              \<and> fst (send_packet e (ipc_hard_kill s) c) = 0
              \<and> (\<forall>h f. Ev_write h f \<notin> set (events_since (ipc_soft_kill s)
                                              (snd (snd (send_packet e (ipc_soft_kill s) c))))
                      \<and> Ev_write h f \<notin> set (events_since (ipc_hard_kill s)
                                              (snd (snd (send_packet e (ipc_hard_kill s) c)))))"
      by (simp add: send_packet_no_path [OF fs(1) ks(1) fs(4) ks(2)]
          send_packet_no_path [OF fh(1) kh(1) fh(4) kh(2)])
  qed
  show ?thesis
    using fs(1-4) fh(1-4) kill_order [of s] reads nokill nowrite by (intro conjI)
qed

text \<open>
  A hard kill on a TCP endpoint without a child, and a soft kill on an endpoint with one.
\<close>

theorem ipc_kill_stops_endpoint_witness:
  "\<not> 0 < ipc_pid tcp_endpoint
   \<and> \<not> stopped tcp_endpoint
   \<and> stopped (ipc_hard_kill tcp_endpoint) \<and> cancelled (ipc_soft_kill tcp_endpoint)
   \<and> events_since tcp_endpoint (ipc_hard_kill tcp_endpoint) = []
   \<and> Ev_kill 1 SIGKILL \<notin> set (events_since tcp_endpoint (ipc_hard_kill tcp_endpoint))
   \<and> start_tcp_read (ipc_hard_kill tcp_endpoint) = ipc_hard_kill tcp_endpoint
   \<and> write_cb ipc_endpoint = None \<and> tcpsocket ipc_endpoint = None
   \<and> events_since ipc_endpoint (ipc_soft_kill ipc_endpoint) =
       [Ev_cancel Ipc_in, Ev_close Ipc_in, Ev_cancel Ipc_out, Ev_close Ipc_out,
        Ev_remove_ipc 4242, Ev_kill 4242 SIGTERM]
   \<and> fst (send_packet sample_env (ipc_soft_kill ipc_endpoint) ping_command) = 0"
proof -
  note t = ipc_kill_stops_endpoint [of tcp_endpoint sample_env]
  note u = ipc_kill_stops_endpoint [of ipc_endpoint sample_env]
  have p: "\<not> 0 < ipc_pid tcp_endpoint" "\<not> stopped tcp_endpoint" by (simp_all add: sample_endpoints)
  have q: "write_cb ipc_endpoint = None \<and> tcpsocket ipc_endpoint = None"
    by (simp add: sample_endpoints)
  have e1: "events_since tcp_endpoint (ipc_hard_kill tcp_endpoint) = []"
    by (simp add: kill_events sample_endpoints)
  have e2: "events_since ipc_endpoint (ipc_soft_kill ipc_endpoint) =
       [Ev_cancel Ipc_in, Ev_close Ipc_in, Ev_cancel Ipc_out, Ev_close Ipc_out,
        Ev_remove_ipc 4242, Ev_kill 4242 SIGTERM]"
    by (simp add: kill_events sample_endpoints)
  note t15 = t [THEN conjunct2, THEN conjunct2, THEN conjunct2, THEN conjunct2, THEN conjunct2,
    THEN conjunct2, THEN conjunct2, THEN conjunct2, THEN conjunct2, THEN conjunct2,
    THEN conjunct2, THEN conjunct2, THEN conjunct2, THEN conjunct2, THEN conjunct1]
  note u16 = u [THEN conjunct2, THEN conjunct2, THEN conjunct2, THEN conjunct2, THEN conjunct2,
    THEN conjunct2, THEN conjunct2, THEN conjunct2, THEN conjunct2, THEN conjunct2,
    THEN conjunct2, THEN conjunct2, THEN conjunct2, THEN conjunct2, THEN conjunct2]
  have a: "Ev_kill 1 SIGKILL \<notin> set (events_since tcp_endpoint (ipc_hard_kill tcp_endpoint))"
    using mp [OF t15 p(1)] by blast
  have b: "fst (send_packet sample_env (ipc_soft_kill ipc_endpoint) ping_command) = 0"
    using mp [OF u16 q] by blast
  have c: "stopped (ipc_hard_kill tcp_endpoint)" "cancelled (ipc_soft_kill tcp_endpoint)"
    "start_tcp_read (ipc_hard_kill tcp_endpoint) = ipc_hard_kill tcp_endpoint"
    using t by blast+
  show ?thesis using p c e1 a q e2 b by (intro conjI) simp_all
qed

text \<open>
  Writes are not held back by \<open>stopped\<close>: after a hard kill on an endpoint with an
  attached TCP socket and no child, \<^verbatim>\<open>send_packet\<close> still starts a write on the socket.
\<close>

theorem ipc_kill_then_send_writes:
  "stopped (ipc_hard_kill tcp_endpoint) \<and> cancelled (ipc_hard_kill tcp_endpoint)
   \<and> ipc_pid tcp_endpoint = 0
   \<and> fst (send_packet sample_env (ipc_hard_kill tcp_endpoint) ping_command) = 1
   \<and> events_since (ipc_hard_kill tcp_endpoint)
         (snd (snd (send_packet sample_env (ipc_hard_kill tcp_endpoint) ping_command)))
       = [Ev_write Tcpsocket
            \<lparr>signature = 3735928559, data_sz = 4, data_checksum = 4, data = ''PING''\<rparr>]"
proof -
  have k: "ipc_hard_kill tcp_endpoint = tcp_endpoint\<lparr>stopped := True, cancelled := True\<rparr>"
    by (simp add: ipc_hard_kill_state sample_endpoints)
  have t: "has_transport (ipc_hard_kill tcp_endpoint)"
    unfolding k by (simp add: has_transport_def sample_endpoints)
  have c: "c_seqno ping_command = 0" by (simp add: ping_command_def)
  show ?thesis
    unfolding send_packet_ok [OF t c] unfolding k
    by (simp add: events_since_def emit_def tx_handle_def frame_of_def next_seqno_def
        sample_env_def ping_command_def sample_endpoints)
qed

section \<open>Command handlers\<close>

lemma emit_emit: "emit b (emit a s) = emit (a @ b) s"
  by (simp add: emit_def)

lemma emit_Nil: "emit [] s = s"
  by (simp add: emit_def)

lemma header_call_raises_Cons:
  "header_call_raises e s con (hh # hs) 0 = append_header_throws e (trace s) con (fst hh) (snd hh)"
  "header_call_raises e s con (hh # hs) (Suc j) =
     header_call_raises e (emit [Ev_append_header con (fst hh) (snd hh)] s) con hs j"
  by (simp_all add: header_call_raises_def header_events_def emit_def)

lemma append_headers_raise:
  "k < length hs \<Longrightarrow> \<forall>j<k. header_call_raises e s con hs j = None \<Longrightarrow>
   header_call_raises e s con hs k = Some what \<Longrightarrow>
   append_headers e s con hs = (Some what, emit (header_events con (take k hs)) s)"
proof (induction hs arbitrary: s k)
  case Nil
  then show ?case by simp
next
  case (Cons hh hs)
  show ?case
  proof (cases k)
    case 0
    then show ?thesis using Cons.prems(3)
      by (simp add: header_call_raises_Cons header_events_def emit_Nil)
  next
    case (Suc k')
    let ?s = "emit [Ev_append_header con (fst hh) (snd hh)] s"
    have first: "append_header_throws e (trace s) con (fst hh) (snd hh) = None"
      using Cons.prems(2) [rule_format, of 0] Suc by (simp add: header_call_raises_Cons)
    have len: "k' < length hs" using Cons.prems(1) Suc by simp
    have before: "\<forall>j<k'. header_call_raises e ?s con hs j = None"
    proof (intro allI impI)
      fix j assume "j < k'"
      then have "Suc j < k" using Suc by simp
      then show "header_call_raises e ?s con hs j = None"
        using Cons.prems(2) [rule_format, of "Suc j"] by (simp add: header_call_raises_Cons)
    qed
    have at: "header_call_raises e ?s con hs k' = Some what"
      using Cons.prems(3) Suc by (simp add: header_call_raises_Cons)
    have "append_headers e ?s con hs = (Some what, emit (header_events con (take k' hs)) ?s)"
      using len before at by (rule Cons.IH)
    then show ?thesis using first Suc by (simp add: emit_emit header_events_def)
  qed
qed

lemma append_headers_accept:
  "\<forall>j<length hs. header_call_raises e s con hs j = None \<Longrightarrow>
   append_headers e s con hs = (None, emit (header_events con hs) s)"
proof (induction hs arbitrary: s)
  case Nil
  show ?case by (simp add: header_events_def emit_Nil)
next
  case (Cons hh hs)
  let ?s = "emit [Ev_append_header con (fst hh) (snd hh)] s"
  have first: "append_header_throws e (trace s) con (fst hh) (snd hh) = None"
    using Cons.prems [rule_format, of 0] by (simp add: header_call_raises_Cons)
  have rest: "\<forall>j<length hs. header_call_raises e ?s con hs j = None"
  proof (intro allI impI)
    fix j assume "j < length hs"
    then show "header_call_raises e ?s con hs j = None"
      using Cons.prems [rule_format, of "Suc j"] by (simp add: header_call_raises_Cons)
  qed
  have "append_headers e ?s con hs = (None, emit (header_events con hs) ?s)"
    using rest by (rule Cons.IH)
  then show ?case using first by (simp add: emit_emit header_events_def)
qed

text \<open>
  Claim C4, amended. When an HTTPRESPONSE parses: if its \<open>req_id\<close> is not in the session
  table, an error is logged, \<^verbatim>\<open>trigger_error\<close> is invoked and nothing else happens. If it
  is in the table, the (header, content) pairs are appended in payload order. If one of
  these \<^verbatim>\<open>append_header\<close> calls raises, the pairs before it stay appended, the handler
  logs, invokes \<^verbatim>\<open>trigger_error\<close> and does nothing else. If none raises and a
  resultcode is present, the status is set; if that call raises, the handler logs, invokes
  \<^verbatim>\<open>trigger_error\<close> and does nothing else. If no call of the handling raises, exactly
  these calls are made, in this order: every pair appended; the status set iff a
  resultcode is present; the content pushed to the response stream iff it is present and
  not empty; the stream completed and the session gate unlocked iff \<open>close_response\<close>
  is true; nothing else of the endpoint changes.
\<close>

theorem handle_packet_http_response_steps:
  assumes "parse_HttpResponse e in_content = Some resp"
  shows "(map_of (http_proxy_session_map s) (req_id resp) = None \<longrightarrow>
            handle_packet_http_response e s in_seqno in_content =
              trigger_error e
                (msg ''Kismet external interface got a HTTPRESPONSE for an unknown session''
                   MSGFLAG_ERROR s)
                ''Invalid HTTPRESPONSE session'')
       \<and> (\<forall>session.
            map_of (http_proxy_session_map s) (req_id resp) = Some session \<longrightarrow>
            (\<forall>k what.
               k < length (header_content resp)
               \<and> (\<forall>j<k. header_call_raises e s (connection session) (header_content resp) j = None)
               \<and> header_call_raises e s (connection session) (header_content resp) k = Some what
               \<longrightarrow>
               handle_packet_http_response e s in_seqno in_content =
                 trigger_error e
                   (msg (''Kismet external interface failed setting HTTPRESPONSE headers - '' @ what)
                      MSGFLAG_ERROR
                      (emit (header_events (connection session) (take k (header_content resp))) s))
                   ''Invalid HTTPRESPONSE header block'')
            \<and> ((\<forall>j<length (header_content resp).
                    header_call_raises e s (connection session) (header_content resp) j = None)
                 \<longrightarrow>
                 (\<forall>rc what.
                    resultcode resp = Some rc
                    \<and> set_status_throws e
                          (trace s @ header_events (connection session) (header_content resp))
                          (connection session) rc = Some what
                    \<longrightarrow>
                    handle_packet_http_response e s in_seqno in_content =
                      trigger_error e
                        (msg (''Kismet external interface failed setting HTTPRESPONSE status code- '' @
                              what)
                           MSGFLAG_ERROR
                           (emit (header_events (connection session) (header_content resp)) s))
                        ''invalid HTTPRESPONSE status code'')
                 \<and> ((\<forall>rc. resultcode resp = Some rc \<longrightarrow>
                            set_status_throws e
                              (trace s @ header_events (connection session) (header_content resp))
                              (connection session) rc = None)
                      \<longrightarrow>
                      handle_packet_http_response e s in_seqno in_content =
                        s\<lparr>trace := trace s
                            @ header_events (connection session) (header_content resp)
                            @ (case resultcode resp of
                                 None \<Rightarrow> []
                               | Some rc \<Rightarrow> [Ev_set_status (connection session) rc])
                            @ (case content resp of
                                 None \<Rightarrow> []
                               | Some d \<Rightarrow>
                                   if d \<noteq> [] then [Ev_stream_put_data (connection session) d]
                                   else [])
                            @ (if close_response resp = Some True then
                                 [Ev_stream_complete (connection session),
                                  Ev_gate_unlock (locker session) None]
                               else [])\<rparr>)))"
proof (intro conjI impI allI)
  assume "map_of (http_proxy_session_map s) (req_id resp) = None"
  then show "handle_packet_http_response e s in_seqno in_content =
              trigger_error e
                (msg ''Kismet external interface got a HTTPRESPONSE for an unknown session''
                   MSGFLAG_ERROR s)
                ''Invalid HTTPRESPONSE session''"
    using assms by (simp add: handle_packet_http_response_def)
next
  fix session :: kis_external_http_session and k what
  let ?con = "connection session"
  assume m: "map_of (http_proxy_session_map s) (req_id resp) = Some session"
    and r: "k < length (header_content resp)
               \<and> (\<forall>j<k. header_call_raises e s ?con (header_content resp) j = None)
               \<and> header_call_raises e s ?con (header_content resp) k = Some what"
  have h: "append_headers e s ?con (header_content resp) =
      (Some what, emit (header_events ?con (take k (header_content resp))) s)"
    using r by (intro append_headers_raise) blast+
  show "handle_packet_http_response e s in_seqno in_content =
          trigger_error e
            (msg (''Kismet external interface failed setting HTTPRESPONSE headers - '' @ what)
               MSGFLAG_ERROR (emit (header_events ?con (take k (header_content resp))) s))
            ''Invalid HTTPRESPONSE header block''"
    using assms m by (simp add: handle_packet_http_response_def h)
next
  fix session :: kis_external_http_session and rc what
  let ?con = "connection session"
  let ?hs = "header_events ?con (header_content resp)"
  assume m: "map_of (http_proxy_session_map s) (req_id resp) = Some session"
    and a: "\<forall>j<length (header_content resp).
              header_call_raises e s ?con (header_content resp) j = None"
    and r: "resultcode resp = Some rc \<and> set_status_throws e (trace s @ ?hs) ?con rc = Some what"
  have h: "append_headers e s ?con (header_content resp) = (None, emit ?hs s)"
    using a by (rule append_headers_accept)
  have st: "set_connection_status e (emit ?hs s) ?con (resultcode resp) = (Some what, emit ?hs s)"
    using r by (simp add: set_connection_status_def emit_def)
  show "handle_packet_http_response e s in_seqno in_content =
          trigger_error e
            (msg (''Kismet external interface failed setting HTTPRESPONSE status code- '' @ what)
               MSGFLAG_ERROR (emit ?hs s))
            ''invalid HTTPRESPONSE status code''"
    using assms m by (simp add: handle_packet_http_response_def h st)
next
  fix session :: kis_external_http_session
  let ?con = "connection session"
  let ?hs = "header_events ?con (header_content resp)"
  assume m: "map_of (http_proxy_session_map s) (req_id resp) = Some session"
    and a: "\<forall>j<length (header_content resp).
              header_call_raises e s ?con (header_content resp) j = None"
    and r: "\<forall>rc. resultcode resp = Some rc \<longrightarrow> set_status_throws e (trace s @ ?hs) ?con rc = None"
  have h: "append_headers e s ?con (header_content resp) = (None, emit ?hs s)"
    using a by (rule append_headers_accept)
  have st: "set_connection_status e (emit ?hs s) ?con (resultcode resp) =
      (None, emit (case resultcode resp of None \<Rightarrow> [] | Some rc \<Rightarrow> [Ev_set_status ?con rc])
               (emit ?hs s))"
  proof (cases "resultcode resp")
    case None
    then show ?thesis by (simp add: set_connection_status_def emit_Nil)
  next
    case (Some rc)
    then have "set_status_throws e (trace s @ ?hs) ?con rc = None" using r by simp
    then show ?thesis using Some by (simp add: set_connection_status_def emit_def)
  qed
  have "handle_packet_http_response e s in_seqno in_content =
        emit (if close_response resp = Some True then
                [Ev_stream_complete ?con, Ev_gate_unlock (locker session) None]
              else [])
          (emit (case content resp of
                   None \<Rightarrow> []
                 | Some d \<Rightarrow> if d \<noteq> [] then [Ev_stream_put_data ?con d] else [])
             (emit (case resultcode resp of None \<Rightarrow> [] | Some rc \<Rightarrow> [Ev_set_status ?con rc])
                (emit ?hs s)))"
    using assms m
    by (simp add: handle_packet_http_response_def h st Let_def emit_Nil split: option.splits)
  then show "handle_packet_http_response e s in_seqno in_content =
               s\<lparr>trace := trace s
                   @ ?hs
                   @ (case resultcode resp of
                        None \<Rightarrow> []
                      | Some rc \<Rightarrow> [Ev_set_status ?con rc])
                   @ (case content resp of
                        None \<Rightarrow> []
                      | Some d \<Rightarrow> if d \<noteq> [] then [Ev_stream_put_data ?con d] else [])
                   @ (if close_response resp = Some True then
                        [Ev_stream_complete ?con, Ev_gate_unlock (locker session) None]
                      else [])\<rparr>"
    by (simp add: emit_def)
qed

lemmas sample_envs =
  sample_env_def http_env_def rejecting_env_def unknown_session_env_def second_header_env_def
  status_rejecting_env_def

text \<open>
  A closing response with two headers, a status and a body for a parked session: on a
  connection that accepts everything, on one that refuses the second header, on one that
  refuses the status; and a response for a session that is not in the table.
\<close>

theorem handle_packet_http_response_steps_witness:
  "parse_HttpResponse http_env ''r'' = Some sample_response
   \<and> map_of (http_proxy_session_map busy_endpoint) (req_id sample_response)
       = Some \<lparr>connection = 100, locker = 200\<rparr>
   \<and> events_since busy_endpoint (handle_packet_http_response http_env busy_endpoint 1 ''r'')
       = [Ev_append_header 100 ''X-T'' ''v'', Ev_append_header 100 ''X-U'' ''w'',
          Ev_set_status 100 200, Ev_stream_put_data 100 ''hi'',
          Ev_stream_complete 100, Ev_gate_unlock 200 None]
   \<and> events_since busy_endpoint (handle_packet_http_response second_header_env busy_endpoint 1 ''r'')
       = [Ev_append_header 100 ''X-T'' ''v'',
          Ev_msg ''Kismet external interface failed setting HTTPRESPONSE headers - in progress''
            MSGFLAG_ERROR,
          Ev_handle_error ''Invalid HTTPRESPONSE header block'',
          Ev_remove_listener 11, Ev_remove_listener 12,
          Ev_stream_cancel 100, Ev_gate_unlock 200 None, Ev_stream_cancel 101, Ev_gate_unlock 201 None,
          Ev_remove_timer 5, Ev_cancel Tcpsocket, Ev_close Tcpsocket]
   \<and> events_since busy_endpoint (handle_packet_http_response status_rejecting_env busy_endpoint 1 ''r'')
       = [Ev_append_header 100 ''X-T'' ''v'', Ev_append_header 100 ''X-U'' ''w'',
          Ev_msg ''Kismet external interface failed setting HTTPRESPONSE status code- in progress''
            MSGFLAG_ERROR,
          Ev_handle_error ''invalid HTTPRESPONSE status code'',
          Ev_remove_listener 11, Ev_remove_listener 12,
          Ev_stream_cancel 100, Ev_gate_unlock 200 None, Ev_stream_cancel 101, Ev_gate_unlock 201 None,
          Ev_remove_timer 5, Ev_cancel Tcpsocket, Ev_close Tcpsocket]
   \<and> map_of (http_proxy_session_map busy_endpoint) (req_id (sample_response\<lparr>req_id := 9\<rparr>)) = None
   \<and> handle_packet_http_response unknown_session_env busy_endpoint 1 ''r''
       = trigger_error unknown_session_env
           (msg ''Kismet external interface got a HTTPRESPONSE for an unknown session''
              MSGFLAG_ERROR busy_endpoint)
           ''Invalid HTTPRESPONSE session''"
proof -
  let ?session = "\<lparr>connection = 100, locker = 200\<rparr>"
  let ?hs = "header_content sample_response"
  have m: "map_of (http_proxy_session_map busy_endpoint) (req_id sample_response) = Some ?session"
    by (simp add: sample_endpoints sample_response_def)
  have ns: "\<not> stopped busy_endpoint" by (simp add: sample_endpoints)
  have tr: "trace busy_endpoint = [Ev_async_read Tcpsocket]" by (simp add: sample_endpoints)
  have hs: "?hs = [(''X-T'', ''v''), (''X-U'', ''w'')]" "resultcode sample_response = Some 200"
    "content sample_response = Some ''hi''" "close_response sample_response = Some True"
    by (simp_all add: sample_response_def)
  have p1: "parse_HttpResponse http_env ''r'' = Some sample_response"
    by (simp add: sample_envs)
  have acc1: "\<forall>j<length ?hs. header_call_raises http_env busy_endpoint (connection ?session) ?hs j = None"
    by (simp add: header_call_raises_def sample_envs)
  have st1: "\<forall>rc. resultcode sample_response = Some rc \<longrightarrow>
      set_status_throws http_env (trace busy_endpoint @ header_events (connection ?session) ?hs)
        (connection ?session) rc = None"
    by (simp add: sample_envs)
  note t1 = handle_packet_http_response_steps [OF p1, of busy_endpoint 1, THEN conjunct2,
    THEN spec, of ?session, THEN mp, OF m, THEN conjunct2, THEN mp, OF acc1, THEN conjunct2,
    THEN mp, OF st1]
  have e1: "events_since busy_endpoint (handle_packet_http_response http_env busy_endpoint 1 ''r'')
       = [Ev_append_header 100 ''X-T'' ''v'', Ev_append_header 100 ''X-U'' ''w'',
          Ev_set_status 100 200, Ev_stream_put_data 100 ''hi'',
          Ev_stream_complete 100, Ev_gate_unlock 200 None]"
    unfolding t1 by (simp add: events_since_def header_events_def hs)

  have p2: "parse_HttpResponse second_header_env ''r'' = Some sample_response"
    by (simp add: sample_envs)
  have r2: "Suc 0 < length ?hs
      \<and> (\<forall>j<Suc 0. header_call_raises second_header_env busy_endpoint (connection ?session) ?hs j = None)
      \<and> header_call_raises second_header_env busy_endpoint (connection ?session) ?hs (Suc 0)
          = Some ''in progress''"
    by (simp add: header_call_raises_def header_events_def hs tr second_header_env_def)
  note t2 = handle_packet_http_response_steps [OF p2, of busy_endpoint 1, THEN conjunct2,
    THEN spec, of ?session, THEN mp, OF m, THEN conjunct1, THEN spec, of "Suc 0",
    THEN spec, of "''in progress''", THEN mp, OF r2]
  have he2: "handle_error second_header_env = (\<lambda>m s. emit [Ev_handle_error m] s)"
    by (simp add: sample_envs)
  have e2: "events_since busy_endpoint (handle_packet_http_response second_header_env busy_endpoint 1 ''r'')
       = [Ev_append_header 100 ''X-T'' ''v'',
          Ev_msg ''Kismet external interface failed setting HTTPRESPONSE headers - in progress''
            MSGFLAG_ERROR,
          Ev_handle_error ''Invalid HTTPRESPONSE header block'',
          Ev_remove_listener 11, Ev_remove_listener 12,
          Ev_stream_cancel 100, Ev_gate_unlock 200 None, Ev_stream_cancel 101, Ev_gate_unlock 201 None,
          Ev_remove_timer 5, Ev_cancel Tcpsocket, Ev_close Tcpsocket]"
    unfolding t2 using ns
    by (simp add: trigger_error_def he2 msg_def emit_def events_since_def header_events_def hs
        close_external_state teardown_events_def)
      (simp add: sample_endpoints)

  have p3: "parse_HttpResponse status_rejecting_env ''r'' = Some sample_response"
    by (simp add: sample_envs)
  have acc3: "\<forall>j<length ?hs.
      header_call_raises status_rejecting_env busy_endpoint (connection ?session) ?hs j = None"
    by (simp add: header_call_raises_def sample_envs)
  have r3: "resultcode sample_response = Some 200
      \<and> set_status_throws status_rejecting_env
            (trace busy_endpoint @ header_events (connection ?session) ?hs) (connection ?session) 200
          = Some ''in progress''"
    by (simp add: hs sample_envs)
  note t3 = handle_packet_http_response_steps [OF p3, of busy_endpoint 1, THEN conjunct2,
    THEN spec, of ?session, THEN mp, OF m, THEN conjunct2, THEN mp, OF acc3, THEN conjunct1,
    THEN spec, of 200, THEN spec, of "''in progress''", THEN mp, OF r3]
  have he3: "handle_error status_rejecting_env = (\<lambda>m s. emit [Ev_handle_error m] s)"
    by (simp add: sample_envs)
  have e3: "events_since busy_endpoint (handle_packet_http_response status_rejecting_env busy_endpoint 1 ''r'')
       = [Ev_append_header 100 ''X-T'' ''v'', Ev_append_header 100 ''X-U'' ''w'',
          Ev_msg ''Kismet external interface failed setting HTTPRESPONSE status code- in progress''
            MSGFLAG_ERROR,
          Ev_handle_error ''invalid HTTPRESPONSE status code'',
          Ev_remove_listener 11, Ev_remove_listener 12,
          Ev_stream_cancel 100, Ev_gate_unlock 200 None, Ev_stream_cancel 101, Ev_gate_unlock 201 None,
          Ev_remove_timer 5, Ev_cancel Tcpsocket, Ev_close Tcpsocket]"
    unfolding t3 using ns
    by (simp add: trigger_error_def he3 msg_def emit_def events_since_def header_events_def hs
        close_external_state teardown_events_def)
      (simp add: sample_endpoints)

  have p9: "parse_HttpResponse unknown_session_env ''r'' = Some (sample_response\<lparr>req_id := 9\<rparr>)"
    by (simp add: sample_envs)
  have m9: "map_of (http_proxy_session_map busy_endpoint) (req_id (sample_response\<lparr>req_id := 9\<rparr>)) = None"
    by (simp add: sample_endpoints sample_response_def)
  have u: "handle_packet_http_response unknown_session_env busy_endpoint 1 ''r''
       = trigger_error unknown_session_env
           (msg ''Kismet external interface got a HTTPRESPONSE for an unknown session''
              MSGFLAG_ERROR busy_endpoint)
           ''Invalid HTTPRESPONSE session''"
    using handle_packet_http_response_steps [OF p9, of busy_endpoint 1, THEN conjunct1] m9
    by (rule mp)
  show ?thesis using p1 m e1 e2 e3 m9 u by (intro conjI)
qed

text \<open>
  When \<^verbatim>\<open>append_header\<close> raises, the handler logs, invokes \<^verbatim>\<open>trigger_error\<close> and
  returns: the session is known, a resultcode and a body are present and
  \<open>close_response\<close> is true, yet no header is appended, no status set, no body pushed
  and the stream is not completed; the endpoint is torn down.
\<close>

theorem handle_packet_http_response_header_raises:
  "parse_HttpResponse rejecting_env ''r'' = Some sample_response
   \<and> map_of (http_proxy_session_map busy_endpoint) (req_id sample_response)
       = Some \<lparr>connection = 100, locker = 200\<rparr>
   \<and> resultcode sample_response = Some 200
   \<and> content sample_response = Some ''hi''
   \<and> close_response sample_response = Some True
   \<and> events_since busy_endpoint (handle_packet_http_response rejecting_env busy_endpoint 1 ''r'')
       = [Ev_msg ''Kismet external interface failed setting HTTPRESPONSE headers - in progress''
            MSGFLAG_ERROR,
          Ev_handle_error ''Invalid HTTPRESPONSE header block'',
          Ev_remove_listener 11, Ev_remove_listener 12,
          Ev_stream_cancel 100, Ev_gate_unlock 200 None, Ev_stream_cancel 101, Ev_gate_unlock 201 None,
          Ev_remove_timer 5, Ev_cancel Tcpsocket, Ev_close Tcpsocket]"
proof -
  have p: "parse_HttpResponse rejecting_env ''r'' = Some sample_response"
    by (simp add: sample_envs)
  have m: "map_of (http_proxy_session_map busy_endpoint) (req_id sample_response)
       = Some \<lparr>connection = 100, locker = 200\<rparr>"
    by (simp add: sample_endpoints sample_response_def)
  have f: "resultcode sample_response = Some 200" "content sample_response = Some ''hi''"
    "close_response sample_response = Some True"
    by (simp_all add: sample_response_def)
  have a: "append_headers rejecting_env busy_endpoint 100 (header_content sample_response)
      = (Some ''in progress'', busy_endpoint)"
    by (simp add: sample_response_def sample_envs)
  have ns: "\<not> stopped busy_endpoint" by (simp add: sample_endpoints)
  have h: "handle_packet_http_response rejecting_env busy_endpoint 1 ''r'' =
      close_external (emit [Ev_handle_error ''Invalid HTTPRESPONSE header block'']
        (msg ''Kismet external interface failed setting HTTPRESPONSE headers - in progress''
           MSGFLAG_ERROR busy_endpoint))"
    using ns by (simp add: handle_packet_http_response_def p m a trigger_error_def msg_def)
      (simp add: sample_envs)
  have "events_since busy_endpoint (handle_packet_http_response rejecting_env busy_endpoint 1 ''r'')
       = [Ev_msg ''Kismet external interface failed setting HTTPRESPONSE headers - in progress''
            MSGFLAG_ERROR,
          Ev_handle_error ''Invalid HTTPRESPONSE header block'',
          Ev_remove_listener 11, Ev_remove_listener 12,
          Ev_stream_cancel 100, Ev_gate_unlock 200 None, Ev_stream_cancel 101, Ev_gate_unlock 201 None,
          Ev_remove_timer 5, Ev_cancel Tcpsocket, Ev_close Tcpsocket]"
    unfolding h
    by (simp add: events_since_def close_external_state teardown_events_def emit_def msg_def
        sample_endpoints)
  then show ?thesis using p m f by (intro conjI)
qed


text \<open>
  Claim C5, amended. On an endpoint with an active outbound path, handling a PING whose
  envelope sequence number is \<open>in_seqno\<close> writes exactly one frame: a PONG command whose
  payload is the Pong with \<open>ping_seqno = in_seqno\<close> and whose own seqno is the newly
  assigned counter value, which is not 0; nothing else of the endpoint changes. On an
  endpoint without an outbound path the handler writes no frame: the counter is advanced,
  \<^verbatim>\<open>send_packet\<close> logs that there are no connections and invokes
  \<^verbatim>\<open>trigger_error\<close> with "no connections".
\<close>

theorem handle_packet_ping_sends_pong:
  "(has_transport s \<longrightarrow>
      handle_packet_ping e s in_seqno in_content =
        s\<lparr>seqno := next_seqno (seqno s),
          trace := trace s @
            [Ev_write (tx_handle s)
               (frame_of e \<lparr>c_command = ''PONG'', c_seqno = next_seqno (seqno s),
                           c_content = serialize_Pong e in_seqno\<rparr>)]\<rparr>
      \<and> next_seqno (seqno s) \<noteq> 0)
   \<and> (\<not> has_transport s \<longrightarrow>
      handle_packet_ping e s in_seqno in_content =
        trigger_error e
          (msg ''Kismet external interface got an error writing packet, no connections''
             MSGFLAG_ERROR (s\<lparr>seqno := next_seqno (seqno s)\<rparr>))
          ''no connections'')"
proof (intro conjI impI)
  assume "has_transport s"
  then show "handle_packet_ping e s in_seqno in_content =
        s\<lparr>seqno := next_seqno (seqno s),
          trace := trace s @
            [Ev_write (tx_handle s)
               (frame_of e \<lparr>c_command = ''PONG'', c_seqno = next_seqno (seqno s),
                           c_content = serialize_Pong e in_seqno\<rparr>)]\<rparr>"
    by (simp add: handle_packet_ping_def send_pong_def send_packet_ok emit_def)
next
  show "next_seqno (seqno s) \<noteq> 0" by (rule next_seqno_nz)
next
  assume "\<not> has_transport s"
  then show "handle_packet_ping e s in_seqno in_content =
        trigger_error e
          (msg ''Kismet external interface got an error writing packet, no connections''
             MSGFLAG_ERROR (s\<lparr>seqno := next_seqno (seqno s)\<rparr>))
          ''no connections''"
    by (simp add: handle_packet_ping_def send_pong_def send_packet_def has_transport_def Let_def)
qed

text \<open>
  A PING with sequence number 7 on a TCP endpoint, and on a running endpoint whose socket
  is not open: there the error hook is called and the endpoint torn down.
\<close>

theorem handle_packet_ping_sends_pong_witness:
  "has_transport tcp_endpoint
   \<and> events_since tcp_endpoint (handle_packet_ping sample_env tcp_endpoint 7 [])
       = [Ev_write Tcpsocket
            \<lparr>signature = 3735928559, data_sz = 9, data_checksum = 9, data = ''PONGseven''\<rparr>]
   \<and> seqno (handle_packet_ping sample_env tcp_endpoint 7 []) = 1
   \<and> \<not> has_transport unplugged_endpoint
   \<and> \<not> stopped unplugged_endpoint
   \<and> events_since unplugged_endpoint (handle_packet_ping sample_env unplugged_endpoint 7 [])
       = [Ev_msg ''Kismet external interface got an error writing packet, no connections''
            MSGFLAG_ERROR,
          Ev_handle_error ''no connections'', Ev_remove_timer (- 1)]"
proof -
  have h: "has_transport tcp_endpoint" by (simp add: has_transport_def sample_endpoints)
  have u: "unplugged_endpoint =
      (kis_external_interface_new 0)\<lparr>stopped := False, trace := [Ev_async_read Tcpsocket]\<rparr>"
    by (simp add: unplugged_endpoint_def attach_tcp_socket_def kis_external_interface_new_def
        start_tcp_read_def emit_def Let_def)
  have n: "\<not> has_transport unplugged_endpoint" "\<not> stopped unplugged_endpoint"
    by (simp_all add: u has_transport_def kis_external_interface_new_def)
  have he: "handle_error sample_env = (\<lambda>m s. emit [Ev_handle_error m] s)"
    by (simp add: sample_env_def)
  note a = handle_packet_ping_sends_pong [of tcp_endpoint sample_env 7 "[]", THEN conjunct1,
    THEN mp, OF h, THEN conjunct1]
  note b = handle_packet_ping_sends_pong [of unplugged_endpoint sample_env 7 "[]", THEN conjunct2,
    THEN mp, OF n(1)]
  have e1: "events_since tcp_endpoint (handle_packet_ping sample_env tcp_endpoint 7 [])
       = [Ev_write Tcpsocket
            \<lparr>signature = 3735928559, data_sz = 9, data_checksum = 9, data = ''PONGseven''\<rparr>]"
    "seqno (handle_packet_ping sample_env tcp_endpoint 7 []) = 1"
    unfolding a
    by (simp_all add: events_since_def tx_handle_def frame_of_def next_seqno_def sample_env_def
        sample_endpoints)
  have e2: "events_since unplugged_endpoint (handle_packet_ping sample_env unplugged_endpoint 7 [])
       = [Ev_msg ''Kismet external interface got an error writing packet, no connections''
            MSGFLAG_ERROR,
          Ev_handle_error ''no connections'', Ev_remove_timer (- 1)]"
    unfolding b using n(2)
    by (simp add: trigger_error_def he msg_def emit_def events_since_def close_external_state
        teardown_events_def)
      (simp add: u kis_external_interface_new_def)
  show ?thesis using h e1 n e2 by (intro conjI)
qed

text \<open>
  On an endpoint without an outbound path (here: never started) a PING is answered by no
  frame at all; \<^verbatim>\<open>send_packet\<close> logs "no connections" and returns 0.
\<close>

theorem handle_packet_ping_no_transport:
  "trace (handle_packet_ping sample_env (kis_external_interface_new 0) 7 [])
     = [Ev_msg ''Kismet external interface got an error writing packet, no connections''
          MSGFLAG_ERROR]"
  by (simp add: handle_packet_ping_def send_pong_def send_packet_def trigger_error_def msg_def
      kis_external_interface_new_def Let_def)

text \<open>
  What each handler does with a sub-message that does not parse (the PING handler parses
  nothing).
\<close>

lemma unparsable_calls_trigger_error:
  "parse_MsgbusMessage e b = None \<Longrightarrow>
     handle_packet_message e s n b =
       trigger_error e (msg ''Kismet external interface got an unparsable MESSAGE'' MSGFLAG_ERROR s)
         ''Invalid MESSAGE''"
  "parse_Pong e b = None \<Longrightarrow>
     handle_packet_pong e s n b =
       trigger_error e
         (msg ''Kismet external interface got an unparsable PONG packet'' MSGFLAG_ERROR s)
         ''Invalid PONG''"
  "parse_ExternalShutdown e b = None \<Longrightarrow>
     handle_packet_shutdown e s n b =
       trigger_error e (msg ''Kismet external interface got an unparsable SHUTDOWN'' MSGFLAG_ERROR s)
         ''invalid SHUTDOWN''"
  "parse_HttpRegisterUri e b = None \<Longrightarrow>
     handle_packet_http_register e s n b =
       trigger_error e
         (msg ''Kismet external interface got an unparsable HTTPREGISTERURI'' MSGFLAG_ERROR s)
         ''Invalid HTTPREGISTERURI''"
  "parse_HttpResponse e b = None \<Longrightarrow>
     handle_packet_http_response e s n b =
       trigger_error e
         (msg ''Kismet external interface got an unparsable HTTPRESPONSE'' MSGFLAG_ERROR s)
         ''Invalid  HTTPRESPONSE''"
  "parse_HttpAuthTokenRequest e b = None \<Longrightarrow>
     handle_packet_http_auth_request e s n b =
       trigger_error e
         (msg ''Kismet external interface got an unparsable HTTPAUTHREQ'' MSGFLAG_ERROR s)
         ''Invalid HTTPAUTHREQ''"
  "parse_EventbusRegisterListener e b = None \<Longrightarrow>
     handle_packet_eventbus_register e s n b =
       trigger_error e
         (msg ''Kismet external interface got an unparseable EVENTBUSREGISTER'' MSGFLAG_ERROR s)
         ''Invalid EVENTBUSREGISTER''"
  "parse_EventbusPublishEvent e b = None \<Longrightarrow>
     handle_packet_eventbus_publish e s n b =
       trigger_error e
         (msg ''Kismet external interface got unparseable EVENTBUSPUBLISH'' MSGFLAG_ERROR s)
         ''Invalid EVENTBUSPUBLISH''"
  by (simp_all add: handle_packet_message_def handle_packet_pong_def handle_packet_shutdown_def
      handle_packet_http_register_def handle_packet_http_response_def
      handle_packet_http_auth_request_def handle_packet_eventbus_register_def
      handle_packet_eventbus_publish_def)

text \<open>
  Claim C7 at its failing inputs. An unparsable SHUTDOWN is logged and reaches
  \<^verbatim>\<open>trigger_error\<close>, and through it the error hook, as "invalid SHUTDOWN" (lower-case i);
  an unparsable HTTPRESPONSE as "Invalid  HTTPRESPONSE" (two spaces). Neither is the
  string "Invalid <CMD>" of the claim.
\<close>

theorem unparsable_error_strings:
  "fst (dispatch_rx_packet sample_env tcp_endpoint
          \<lparr>c_command = ''SHUTDOWN'', c_seqno = 1, c_content = ''junk''\<rparr>) = True
   \<and> events_since tcp_endpoint
         (snd (dispatch_rx_packet sample_env tcp_endpoint
                 \<lparr>c_command = ''SHUTDOWN'', c_seqno = 1, c_content = ''junk''\<rparr>))
       = [Ev_msg ''Kismet external interface got an unparsable SHUTDOWN'' MSGFLAG_ERROR,
          Ev_handle_error ''invalid SHUTDOWN'',
          Ev_remove_timer (- 1), Ev_cancel Tcpsocket, Ev_close Tcpsocket]
   \<and> events_since tcp_endpoint
         (snd (dispatch_rx_packet sample_env tcp_endpoint
                 \<lparr>c_command = ''HTTPRESPONSE'', c_seqno = 2, c_content = ''junk''\<rparr>))
       = [Ev_msg ''Kismet external interface got an unparsable HTTPRESPONSE'' MSGFLAG_ERROR,
          Ev_handle_error ''Invalid  HTTPRESPONSE'',
          Ev_remove_timer (- 1), Ev_cancel Tcpsocket, Ev_close Tcpsocket]
   \<and> ''invalid SHUTDOWN'' \<noteq> ''Invalid SHUTDOWN''
   \<and> ''Invalid  HTTPRESPONSE'' \<noteq> ''Invalid HTTPRESPONSE''"
proof -
  have ns: "\<not> stopped tcp_endpoint" by (simp add: sample_endpoints)
  have p: "parse_ExternalShutdown sample_env ''junk'' = None"
    "parse_HttpResponse sample_env ''junk'' = None"
    by (simp_all add: sample_env_def)
  have he: "handle_error sample_env = (\<lambda>m s. emit [Ev_handle_error m] s)"
    by (simp add: sample_env_def)
  show ?thesis
    using ns
    by (simp add: dispatch_rx_packet_def unparsable_calls_trigger_error(3) [OF p(1)]
        unparsable_calls_trigger_error(5) [OF p(2)] trigger_error_def he msg_def emit_def
        events_since_def close_external_state teardown_events_def)
      (simp add: sample_endpoints)
qed

section \<open>Binary resolution and launch\<close>

lemma check_ipc_paths_iff:
  "check_ipc_paths e in_binary ps =
     (\<exists>rp\<in>set ps. \<exists>fstat. stat e (expand_log_path e rp @ ''/'' @ in_binary) = Some fstat
        \<and> \<not> S_ISDIR (st_mode fstat) \<and> S_IXUSR AND st_mode fstat \<noteq> 0)"
  by (induction ps) (auto simp: Let_def split: option.splits)

text \<open>
  Claim C8. \<^verbatim>\<open>check_ipc\<close> returns true iff for some configured helper path (the single
  token "%B" when none is configured) the expanded path joined with "/" and the binary name
  can be stat'ed, is not a directory, and has its owner-execute bit set. Directories and
  files without that bit are passed over; when no path qualifies the result is false.
\<close>

theorem check_ipc_iff:
  "check_ipc e in_binary =
     (\<exists>rp\<in>set (if fetch_opt_vec e ''helper_binary_path'' = [] then [''%B'']
                 else fetch_opt_vec e ''helper_binary_path'').
        \<exists>fstat. stat e (expand_log_path e rp @ ''/'' @ in_binary) = Some fstat
          \<and> \<not> S_ISDIR (st_mode fstat) \<and> S_IXUSR AND st_mode fstat \<noteq> 0)"
  unfolding check_ipc_def Let_def check_ipc_paths_iff by simp

lemma mode_bits:
  "S_ISDIR dir_mode" "\<not> S_ISDIR exec_mode" "\<not> S_ISDIR plain_mode"
  "S_IXUSR AND dir_mode \<noteq> 0" "S_IXUSR AND exec_mode \<noteq> 0" "S_IXUSR AND plain_mode = 0"
  "exec_mode AND S_IXOTH \<noteq> 0"
  by (simp_all add: S_ISDIR_def S_IFMT_def S_IFDIR_def S_IXUSR_def S_IXOTH_def
      dir_mode_def exec_mode_def plain_mode_def)

text \<open>
  With paths "/no" and "/tmp", a directory "/no/helper" and a regular file "/tmp/helper":
  not found while the file is not executable, found once it is; and found under the
  default "%B" when no path is configured.
\<close>

theorem check_ipc_iff_witness:
  "\<not> check_ipc noexec_env ''helper'' \<and> check_ipc exec_env ''helper''
   \<and> check_ipc default_path_env ''helper''"
  unfolding check_ipc_iff
  by (simp add: noexec_env_def exec_env_def default_path_env_def sample_env_def mode_bits)


text \<open>
  Claim C9. \<^verbatim>\<open>run_ipc\<close> returns false exactly when the binary name is empty, no
  search path holds the binary, the permission probe fails, a pipe cannot be created, or
  the fork fails. Whenever it returns false the endpoint is stopped, \<open>cancelled\<close>, the
  pipe handles and the recorded pid are as before, no child has been registered and no
  read has been started. Only when it returns true (the fork gave a positive pid) are
  \<open>stopped\<close> and \<open>cancelled\<close> cleared, and the last two things done are the
  registration of the child and, right after it, the start of the IPC read. In the forked
  child the endpoint stays stopped as well.
\<close>

theorem run_ipc_failure_stays_stopped:
  "(fst (run_ipc e s) = Returned False \<longleftrightarrow>
      external_binary s = []
      \<or> find_helper e (external_binary s) (helper_paths e) = None
      \<or> (\<exists>helper_path fstat.
            find_helper e (external_binary s) (helper_paths e) = Some (helper_path, fstat)
            \<and> (group_denied e fstat \<or> pipe_in e = None \<or> pipe_out e = None \<or> fork e < 0)))
   \<and> (fst (run_ipc e s) = Returned False \<longrightarrow>
        stopped (snd (run_ipc e s))
        \<and> cancelled (snd (run_ipc e s)) = cancelled s
        \<and> ipc_in (snd (run_ipc e s)) = ipc_in s
        \<and> ipc_out (snd (run_ipc e s)) = ipc_out s
        \<and> ipc_pid (snd (run_ipc e s)) = ipc_pid s
        \<and> (\<forall>h. Ev_async_read h \<notin> set (events_since s (snd (run_ipc e s))))
        \<and> (\<forall>p. Ev_register_ipc p \<notin> set (events_since s (snd (run_ipc e s)))))
   \<and> (fst (run_ipc e s) = Returned True \<longrightarrow>
        0 < fork e
        \<and> \<not> stopped (snd (run_ipc e s)) \<and> \<not> cancelled (snd (run_ipc e s))
        \<and> ipc_pid (snd (run_ipc e s)) = fork e
        \<and> (\<exists>pre. events_since s (snd (run_ipc e s)) =
               pre @ [Ev_register_ipc (fork e), Ev_async_read Ipc_in]))
   \<and> (\<forall>helper_path inf outf args.
        fst (run_ipc e s) = Child_execvp helper_path inf outf args \<longrightarrow>
        stopped (snd (run_ipc e s)))"
proof (cases "external_binary s = []")
  case True
  then show ?thesis
    by (simp add: run_ipc_def Let_def msg_def events_since_def)
next
  case nb: False
  show ?thesis
  proof (cases "find_helper e (external_binary s) (helper_paths e)")
    case None
    then show ?thesis using nb
      by (cases "fetch_opt_vec e ''helper_binary_path'' = []")
        (simp_all add: run_ipc_def helper_paths_def Let_def msg_def events_since_def)
  next
    case (Some found)
    obtain helper_path fstat where f: "found = (helper_path, fstat)" by (cases found)
    note fh = Some [unfolded f helper_paths_def Let_def]
    show ?thesis
    proof (cases "group_denied e fstat")
      case True
      then show ?thesis using nb fh
        by (cases "fetch_opt_vec e ''helper_binary_path'' = []")
        (simp_all add: run_ipc_def helper_paths_def Let_def msg_def events_since_def)
    next
      case gd: False
      show ?thesis
      proof (cases "pipe_in e")
        case None
        then show ?thesis using nb fh gd
          by (cases "fetch_opt_vec e ''helper_binary_path'' = []")
        (simp_all add: run_ipc_def helper_paths_def Let_def msg_def events_since_def)
      next
        case pin: (Some inpipepair)
        show ?thesis
        proof (cases "pipe_out e")
          case None
          then show ?thesis using nb fh gd pin
            by (cases "fetch_opt_vec e ''helper_binary_path'' = []")
              (simp_all add: run_ipc_def helper_paths_def Let_def msg_def emit_def events_since_def)
        next
          case pout: (Some outpipepair)
          consider (fail) "fork e < 0" | (child) "fork e = 0" | (parent) "0 < fork e"
            by linarith
          then show ?thesis
          proof cases
            case fail
            then show ?thesis using nb fh gd pin pout
              by (cases "fetch_opt_vec e ''helper_binary_path'' = []")
              (simp_all add: run_ipc_def helper_paths_def Let_def msg_def emit_def events_since_def)
          next
            case child
            then show ?thesis using nb fh gd pin pout
              by (cases "fetch_opt_vec e ''helper_binary_path'' = []")
              (simp_all add: run_ipc_def helper_paths_def Let_def msg_def emit_def events_since_def)
          next
            case parent
            then have nf: "\<not> fork e < 0" "fork e \<noteq> 0" by simp_all
            show ?thesis using parent nf nb fh gd pin pout
              by (cases "fetch_opt_vec e ''helper_binary_path'' = []")
                (simp_all add: run_ipc_def helper_paths_def Let_def msg_def emit_def
                  start_ipc_read_def events_since_def)
          qed
        qed
      qed
    qed
  qed
qed


text \<open>
  A launch that finds no executable helper, and one that succeeds and yields the sample
  IPC endpoint.
\<close>

theorem run_ipc_failure_stays_stopped_witness:
  "fst (run_ipc noexec_env helper_endpoint) = Returned False
   \<and> stopped (snd (run_ipc noexec_env helper_endpoint))
   \<and> Ev_async_read Ipc_in \<notin> set (events_since helper_endpoint (snd (run_ipc noexec_env helper_endpoint)))
   \<and> events_since helper_endpoint (snd (run_ipc noexec_env helper_endpoint))
       = [Ev_msg ''Kismet external interface can not find IPC binary for launch: helper''
            MSGFLAG_ERROR]
   \<and> fst (run_ipc exec_env helper_endpoint) = Returned True
   \<and> \<not> stopped (snd (run_ipc exec_env helper_endpoint))
   \<and> \<not> cancelled (snd (run_ipc exec_env helper_endpoint))
   \<and> (snd (run_ipc exec_env helper_endpoint))\<lparr>in_buf := ''partial frame''\<rparr> = ipc_endpoint"
proof -
  have f: "find_helper noexec_env ''helper'' [''/no'', ''/tmp''] = None"
    by (simp add: noexec_env_def sample_env_def mode_bits)
  have g: "find_helper exec_env ''helper'' [''/no'', ''/tmp'']
             = Some (''/tmp/helper'', \<lparr>st_mode = exec_mode, st_uid = 0, st_gid = 0\<rparr>)"
    by (simp add: exec_env_def sample_env_def mode_bits)
  have cfg: "fetch_opt_vec noexec_env ''helper_binary_path'' = [''/no'', ''/tmp'']"
    "fetch_opt_vec exec_env ''helper_binary_path'' = [''/no'', ''/tmp'']"
    by (simp_all add: noexec_env_def exec_env_def)
  have os: "pipe_in exec_env = Some (3, 4)" "pipe_out exec_env = Some (5, 6)" "fork exec_env = 4242"
    by (simp_all add: exec_env_def sample_env_def)
  have gd: "\<not> group_denied exec_env \<lparr>st_mode = exec_mode, st_uid = 0, st_gid = 0\<rparr>"
    by (simp add: group_denied_def mode_bits)
  have hb: "external_binary helper_endpoint = ''helper''"
    by (simp add: helper_endpoint_def)
  have r1: "run_ipc noexec_env helper_endpoint =
      (Returned False,
       helper_endpoint\<lparr>trace :=
         [Ev_msg ''Kismet external interface can not find IPC binary for launch: helper''
            MSGFLAG_ERROR]\<rparr>)"
    by (simp add: run_ipc_def Let_def msg_def cfg hb f del: find_helper.simps)
      (simp add: helper_endpoint_def kis_external_interface_new_def)
  have r2: "run_ipc exec_env helper_endpoint =
      (Returned True,
       helper_endpoint\<lparr>stopped := False, ipc_in := Some 5, ipc_out := Some 4, ipc_pid := 4242,
         trace := [Ev_close_fd 3, Ev_close_fd 6, Ev_register_ipc 4242, Ev_async_read Ipc_in]\<rparr>)"
    by (simp add: run_ipc_def Let_def msg_def emit_def start_ipc_read_def cfg os gd hb g
        del: find_helper.simps)
      (simp add: helper_endpoint_def kis_external_interface_new_def)
  note t = run_ipc_failure_stays_stopped [of noexec_env helper_endpoint]
  note u = run_ipc_failure_stays_stopped [of exec_env helper_endpoint]
  have a: "fst (run_ipc noexec_env helper_endpoint) = Returned False" by (simp add: r1)
  have b: "fst (run_ipc exec_env helper_endpoint) = Returned True" by (simp add: r2)
  note t2 = mp [OF t [THEN conjunct2, THEN conjunct1] a]
  note u3 = mp [OF u [THEN conjunct2, THEN conjunct2, THEN conjunct1] b]
  have c: "stopped (snd (run_ipc noexec_env helper_endpoint))" using t2 by (rule conjunct1)
  have d: "Ev_async_read Ipc_in \<notin> set (events_since helper_endpoint (snd (run_ipc noexec_env helper_endpoint)))"
    using t2 by blast
  have ev: "events_since helper_endpoint (snd (run_ipc noexec_env helper_endpoint))
       = [Ev_msg ''Kismet external interface can not find IPC binary for launch: helper''
            MSGFLAG_ERROR]"
    unfolding r1 by (simp add: events_since_def helper_endpoint_def kis_external_interface_new_def)
  have e: "\<not> stopped (snd (run_ipc exec_env helper_endpoint))"
    "\<not> cancelled (snd (run_ipc exec_env helper_endpoint))"
    using u3 by blast+
  have i: "(snd (run_ipc exec_env helper_endpoint))\<lparr>in_buf := ''partial frame''\<rparr> = ipc_endpoint"
    unfolding r2 by (simp add: ipc_endpoint_def helper_endpoint_def kis_external_interface_new_def)
  show ?thesis using a c d ev b e i by (intro conjI)
qed

end
